theory Spec2Isabelle
  imports Complex_Main
begin

section \<open>JavaScript numbers\<close>

text \<open>
  A JavaScript number is a double: a finite value, held here by the real it denotes, or
  one of the three non-finite values. The two zeros are one value, \<open>Num 0\<close>: they are
  equal under every comparison of the source, and no function below divides by a zero.
\<close>

datatype jsnum = Num real | NaN | PosInf | NegInf

text \<open>\<^verbatim>\<open>Number.isFinite\<close>\<close>

fun isFinite :: "jsnum \<Rightarrow> bool" where
  "isFinite (Num _) = True"
| "isFinite _ = False"

subsection \<open>Rounding to a double\<close>

text \<open>
  \<open>pow2 e\<close> is the power of two with exponent \<open>e\<close>. \<open>exponent x\<close> is the exponent of
  the binade of \<open>x\<close>: the greatest \<open>e\<close> from \<open>-1022\<close> to \<open>1025\<close> with \<open>pow2 e \<le> \<bar>x\<bar>\<close>,
  found bit by bit, and \<open>-1022\<close> for a value in the subnormal range.
\<close>

definition pow2 :: "int \<Rightarrow> real" where
  "pow2 e = (if 0 \<le> e then 2 ^ nat e else 1 / 2 ^ nat (- e))"

definition exponent :: "real \<Rightarrow> int" where
  "exponent x =
     fold (\<lambda>b e. if pow2 (e + b) \<le> \<bar>x\<bar> then e + b else e)
       [1024, 512, 256, 128, 64, 32, 16, 8, 4, 2, 1] (- 1022)"

text \<open>The nearest integer, a tie going to the even one.\<close>

definition round_even :: "real \<Rightarrow> int" where
  "round_even q =
     (let f = \<lfloor>q\<rfloor>; r = q - of_int f
      in if r < 1 / 2 then f else if 1 / 2 < r then f + 1 else if even f then f else f + 1)"

text \<open>
  \<open>fl x\<close> is the double nearest to the real \<open>x\<close> (IEEE 754 binary64, round to nearest,
  ties to even): \<open>x\<close> is rounded to a multiple of the unit in the last place of its
  binade, 52 bits below its exponent, and a result of magnitude \<open>2^1024\<close> or more is an
  infinity. A decimal literal of the source denotes \<open>fl\<close> of its value.
\<close>

definition fl :: "real \<Rightarrow> jsnum" where
  "fl x =
     (let u = pow2 (exponent x - 52);
          y = of_int (round_even (x / u)) * u
      in if 2 ^ 1024 \<le> y then PosInf else if y \<le> - (2 ^ 1024) then NegInf else Num y)"

subsection \<open>Arithmetic on doubles\<close>

text \<open>\<^verbatim>\<open>a + b\<close>\<close>

fun js_add :: "jsnum \<Rightarrow> jsnum \<Rightarrow> jsnum" where
  "js_add (Num a) (Num b) = fl (a + b)"
| "js_add NaN _ = NaN"
| "js_add _ NaN = NaN"
| "js_add PosInf NegInf = NaN"
| "js_add NegInf PosInf = NaN"
| "js_add PosInf _ = PosInf"
| "js_add NegInf _ = NegInf"
| "js_add (Num a) b = b"

text \<open>\<^verbatim>\<open>a - b\<close>\<close>

fun js_sub :: "jsnum \<Rightarrow> jsnum \<Rightarrow> jsnum" where
  "js_sub (Num a) (Num b) = fl (a - b)"
| "js_sub NaN _ = NaN"
| "js_sub _ NaN = NaN"
| "js_sub PosInf PosInf = NaN"
| "js_sub NegInf NegInf = NaN"
| "js_sub PosInf _ = PosInf"
| "js_sub NegInf _ = NegInf"
| "js_sub (Num a) PosInf = NegInf"
| "js_sub (Num a) NegInf = PosInf"

text \<open>\<^verbatim>\<open>a * b\<close>\<close>

fun js_mul :: "jsnum \<Rightarrow> jsnum \<Rightarrow> jsnum" where
  "js_mul (Num a) (Num b) = fl (a * b)"
| "js_mul NaN _ = NaN"
| "js_mul _ NaN = NaN"
| "js_mul (Num a) PosInf = (if a = 0 then NaN else if 0 < a then PosInf else NegInf)"
| "js_mul (Num a) NegInf = (if a = 0 then NaN else if 0 < a then NegInf else PosInf)"
| "js_mul PosInf (Num b) = (if b = 0 then NaN else if 0 < b then PosInf else NegInf)"
| "js_mul NegInf (Num b) = (if b = 0 then NaN else if 0 < b then NegInf else PosInf)"
| "js_mul PosInf PosInf = PosInf"
| "js_mul NegInf NegInf = PosInf"
| "js_mul PosInf NegInf = NegInf"
| "js_mul NegInf PosInf = NegInf"

text \<open>
  \<^verbatim>\<open>a / b\<close>. With one value for the two zeros the sign of a quotient by zero is not
  determined; it is taken as for the positive zero.
\<close>

fun js_div :: "jsnum \<Rightarrow> jsnum \<Rightarrow> jsnum" where
  "js_div (Num a) (Num b) =
     (if b = 0 then (if a = 0 then NaN else if 0 < a then PosInf else NegInf)
      else fl (a / b))"
| "js_div NaN _ = NaN"
| "js_div _ NaN = NaN"
| "js_div (Num a) PosInf = Num 0"
| "js_div (Num a) NegInf = Num 0"
| "js_div PosInf (Num b) = (if 0 \<le> b then PosInf else NegInf)"
| "js_div NegInf (Num b) = (if 0 \<le> b then NegInf else PosInf)"
| "js_div PosInf _ = NaN"
| "js_div NegInf _ = NaN"


text \<open>\<^verbatim>\<open>a < b\<close>: false when either side is NaN.\<close>

fun js_lt :: "jsnum \<Rightarrow> jsnum \<Rightarrow> bool" where
  "js_lt (Num a) (Num b) = (a < b)"
| "js_lt NaN _ = False"
| "js_lt _ NaN = False"
| "js_lt _ NegInf = False"
| "js_lt PosInf _ = False"
| "js_lt NegInf _ = True"
| "js_lt (Num a) PosInf = True"

text \<open>\<^verbatim>\<open>Math.max(a, b)\<close>\<close>

fun js_max :: "jsnum \<Rightarrow> jsnum \<Rightarrow> jsnum" where
  "js_max NaN _ = NaN"
| "js_max _ NaN = NaN"
| "js_max a b = (if js_lt a b then b else a)"

section \<open>app/api/trade/utils.js\<close>

definition NUMERIC_EPSILON :: real where
  "NUMERIC_EPSILON = 1 / 10 ^ 9"


text \<open>
  The same function as it runs on doubles: \<^verbatim>\<open>1e-9\<close> is the double nearest to it, and
  the sum is rounded before it is compared.
\<close>

fun isBelowMin_double :: "jsnum \<Rightarrow> jsnum \<Rightarrow> bool" where
  "isBelowMin_double (Num numeric) (Num mn) =
     js_lt (js_add (Num numeric) (fl NUMERIC_EPSILON)) (Num mn)"
| "isBelowMin_double _ _ = True"

section \<open>app/api/trade/limit/route.js: sizing helpers\<close>

definition MIN_ORDER_NOTIONAL_USD :: real where
  "MIN_ORDER_NOTIONAL_USD = 1"

definition MIN_ORDER_SHARES :: real where
  "MIN_ORDER_SHARES = 5"




fun minSellSharesAtPrice :: "jsnum \<Rightarrow> jsnum" where
  "minSellSharesAtPrice (Num p) =
     (if p \<le> 0 then Num MIN_ORDER_SHARES
      else js_max (Num MIN_ORDER_SHARES) (js_div (Num MIN_ORDER_NOTIONAL_USD) (Num p)))"
| "minSellSharesAtPrice _ = Num MIN_ORDER_SHARES"

fun adjustSellAmountToAvoidDust :: "jsnum \<Rightarrow> jsnum \<Rightarrow> jsnum \<Rightarrow> jsnum" where
  "adjustSellAmountToAvoidDust (Num requested) (Num available) price =
     (let next = min requested available;
          remaining = js_sub (Num available) (Num next);
          minSellShares = minSellSharesAtPrice price
      in if js_lt (Num 0) remaining \<and> isBelowMin_double remaining minSellShares
         then Num available else Num next)"
| "adjustSellAmountToAvoidDust requested _ _ = requested"


section \<open>src/trading/logger.js and the outside world\<close>

text \<open>
  A thrown value is represented by the text \<^verbatim>\<open>formatError\<close> gives for it.
\<close>

datatype js_error = JsError string

fun formatError :: "js_error \<Rightarrow> string" where
  "formatError (JsError text) = text"

datatype log_level = INFO | WARN | ERROR

text \<open>
  What an SDK method answers is outside the program. The answers of each method are a
  tape: \<open>reply t n\<close> is the outcome of the n-th call, \<open>calls t\<close> counts the calls made
  so far. An outcome \<open>Inl e\<close> is a raised exception (a rejected promise).
\<close>

record 'a tape =
  reply :: "nat \<Rightarrow> 'a"
  calls :: nat

definition next_reply :: "'a tape \<Rightarrow> 'a \<times> 'a tape" where
  "next_reply t = (reply t (calls t), t\<lparr>calls := Suc (calls t)\<rparr>)"

datatype ApiKeyCreds = ApiKeyCreds string string string

text \<open>
  The signer \<^verbatim>\<open>new Wallet(privateKey)\<close> builds: its address, and whether it has the
  methods \<^verbatim>\<open>_signTypedData\<close> (ethers v5) and \<^verbatim>\<open>signTypedData\<close> (ethers v6).
\<close>

record signer =
  address :: string
  has_signTypedData_v5 :: bool
  has_signTypedData :: bool

record trade =
  size_tr :: jsnum
  price_tr :: jsnum

text \<open>
  An order as \<^verbatim>\<open>client.getOrder\<close> returns it. A field is \<open>None\<close> when it is null or
  undefined; \<open>size_matched\<close> and \<open>price\<close> hold the value \<^verbatim>\<open>Number(.)\<close> gives for the
  field.
\<close>

record order =
  status :: "string option"
  associate_trades :: "string list option"
  size_matched :: "jsnum option"
  price :: "jsnum option"

text \<open>
  The response to an order submission: its two alias fields for the identifier, its
  status, and the text \<^verbatim>\<open>JSON.stringify\<close> gives for it.
\<close>

record post_response =
  orderID :: "string option"
  orderId :: "string option"
  status_resp :: "string option"
  json :: string

datatype request =
    CreateOrDeriveApiKey int
  | DeriveApiKey int
  | GetTickSize string
  | GetNegRisk string
  | CreateAndPostOrder string "jsnum option" "jsnum option" string string bool string "bool option"
  | CreateAndPostMarketOrder string "jsnum option" string "jsnum option" string bool string
  | GetOrder string
  | GetTrades string

record world =
  Date_now :: "int tape"
  newWallet :: "string \<Rightarrow> js_error + signer"
  createOrDeriveApiKey :: "(js_error + ApiKeyCreds) tape"
  deriveApiKey :: "(js_error + ApiKeyCreds) tape"
  getTickSize :: "(js_error + string) tape"
  getNegRisk :: "(js_error + bool) tape"
  createAndPostOrder :: "(js_error + post_response option) tape"
  createAndPostMarketOrder :: "(js_error + post_response option) tape"
  getOrder :: "(js_error + order option) tape"
  getTrades :: "(js_error + trade list option) tape"
  sent :: "request list"
  console :: "(log_level \<times> string) list"
  slept :: "real list"

text \<open>The logger: the level and the first argument (the message or its format).\<close>

definition logger_info :: "string \<Rightarrow> world \<Rightarrow> world" where
  "logger_info msg w = w\<lparr>console := console w @ [(INFO, msg)]\<rparr>"

definition logger_warn :: "string \<Rightarrow> world \<Rightarrow> world" where
  "logger_warn msg w = w\<lparr>console := console w @ [(WARN, msg)]\<rparr>"

definition logger_error :: "string \<Rightarrow> world \<Rightarrow> world" where
  "logger_error msg w = w\<lparr>console := console w @ [(ERROR, msg)]\<rparr>"

definition now :: "world \<Rightarrow> int \<times> world" where
  "now w = (let (t, tp) = next_reply (Date_now w) in (t, w\<lparr>Date_now := tp\<rparr>))"

definition sleep :: "real \<Rightarrow> world \<Rightarrow> world" where
  "sleep ms w = w\<lparr>slept := slept w @ [ms]\<rparr>"

definition client_createOrDeriveApiKey :: "int \<Rightarrow> world \<Rightarrow> (js_error + ApiKeyCreds) \<times> world" where
  "client_createOrDeriveApiKey nonce w =
     (let (r, tp) = next_reply (createOrDeriveApiKey w)
      in (r, w\<lparr>createOrDeriveApiKey := tp, sent := sent w @ [CreateOrDeriveApiKey nonce]\<rparr>))"

definition client_deriveApiKey :: "int \<Rightarrow> world \<Rightarrow> (js_error + ApiKeyCreds) \<times> world" where
  "client_deriveApiKey nonce w =
     (let (r, tp) = next_reply (deriveApiKey w)
      in (r, w\<lparr>deriveApiKey := tp, sent := sent w @ [DeriveApiKey nonce]\<rparr>))"

definition client_getTickSize :: "string \<Rightarrow> world \<Rightarrow> (js_error + string) \<times> world" where
  "client_getTickSize tokenID w =
     (let (r, tp) = next_reply (getTickSize w)
      in (r, w\<lparr>getTickSize := tp, sent := sent w @ [GetTickSize tokenID]\<rparr>))"

definition client_getNegRisk :: "string \<Rightarrow> world \<Rightarrow> (js_error + bool) \<times> world" where
  "client_getNegRisk tokenID w =
     (let (r, tp) = next_reply (getNegRisk w)
      in (r, w\<lparr>getNegRisk := tp, sent := sent w @ [GetNegRisk tokenID]\<rparr>))"

definition client_createAndPostOrder ::
  "request \<Rightarrow> world \<Rightarrow> (js_error + post_response option) \<times> world" where
  "client_createAndPostOrder rq w =
     (let (r, tp) = next_reply (createAndPostOrder w)
      in (r, w\<lparr>createAndPostOrder := tp, sent := sent w @ [rq]\<rparr>))"

definition client_createAndPostMarketOrder ::
  "request \<Rightarrow> world \<Rightarrow> (js_error + post_response option) \<times> world" where
  "client_createAndPostMarketOrder rq w =
     (let (r, tp) = next_reply (createAndPostMarketOrder w)
      in (r, w\<lparr>createAndPostMarketOrder := tp, sent := sent w @ [rq]\<rparr>))"

definition client_getOrder :: "string \<Rightarrow> world \<Rightarrow> (js_error + order option) \<times> world" where
  "client_getOrder oid w =
     (let (r, tp) = next_reply (getOrder w)
      in (r, w\<lparr>getOrder := tp, sent := sent w @ [GetOrder oid]\<rparr>))"

definition client_getTrades :: "string \<Rightarrow> world \<Rightarrow> (js_error + trade list option) \<times> world" where
  "client_getTrades tradeId w =
     (let (r, tp) = next_reply (getTrades w)
      in (r, w\<lparr>getTrades := tp, sent := sent w @ [GetTrades tradeId]\<rparr>))"

section \<open>The trading module: session\<close>

text \<open>
  \<^verbatim>\<open>TRADING_CONFIG\<close> is read at every call; a call sees one value of it. A key or an
  address that is \<open>None\<close> or empty is falsy.
\<close>

record config =
  enabled :: bool
  privateKey :: "string option"
  funderAddress :: "string option"
  signatureType :: "nat option"
  clobApi :: string
  useServerTime :: bool

fun truthy :: "string option \<Rightarrow> bool" where
  "truthy None = False"
| "truthy (Some s) = (s \<noteq> [])"

record ClobContext =
  address_ctx :: string
  funderAddress_ctx :: string
  creds :: ApiKeyCreds

text \<open>
  The module's two variables. A promise is held by its outcome: \<open>Some (Inr ctx)\<close> is a
  fulfilled promise, \<open>Some (Inl e)\<close> a rejected one, \<open>None\<close> is \<^verbatim>\<open>null\<close>.
\<close>

record module_state =
  clobContextPromise :: "(js_error + ClobContext) option"
  warnedMissingKey :: bool

text \<open>\<^verbatim>\<open>let clobContextPromise = null; let warnedMissingKey = false;\<close>\<close>

definition initial_module_state :: module_state where
  "initial_module_state = \<lparr>clobContextPromise = None, warnedMissingKey = False\<rparr>"

text \<open>\<^verbatim>\<open>String(value).trim()\<close>, for the white space of ASCII.\<close>

definition is_space :: "char \<Rightarrow> bool" where
  "is_space c = (c = CHR '' '' \<or> c = CHR 0x09 \<or> c = CHR 0x0A \<or> c = CHR 0x0B
                 \<or> c = CHR 0x0C \<or> c = CHR 0x0D)"

definition trim :: "string \<Rightarrow> string" where
  "trim s = rev (dropWhile is_space (rev (dropWhile is_space s)))"

definition normalizeAddress :: "string \<Rightarrow> string" where
  "normalizeAddress v = trim v"

text \<open>\<^verbatim>\<open>truncate(value, max = 500)\<close>; every record has a \<open>truncate\<close> of its own, hence the suffix.\<close>

definition truncate_js :: "string \<Rightarrow> nat \<Rightarrow> string" where
  "truncate_js v mx = (if length v > mx then take mx v @ ''...'' else v)"

text \<open>
  \<^verbatim>\<open>initClobContext\<close> in three parts. Lines 34-46: the adapter installed on a signer
  of ethers v6, the funder address, and the lines logged about them.
\<close>

definition funder_of :: "config \<Rightarrow> signer \<Rightarrow> string" where
  "funder_of cfg sg =
     (case funderAddress cfg of
        Some a \<Rightarrow> if a \<noteq> [] then normalizeAddress a else address sg
      | None \<Rightarrow> address sg)"

definition log_signer :: "config \<Rightarrow> signer \<Rightarrow> world \<Rightarrow> world" where
  "log_signer cfg sg w =
     (let w1 = (if \<not> has_signTypedData_v5 sg \<and> has_signTypedData sg
                then logger_info ''Applied ethers v6 _signTypedData shim for clob-client'' w
                else w);
          w2 = logger_info ''Trading funder:'' (logger_info ''Trading signer:'' w1);
          w3 = (if signatureType cfg \<noteq> None
                then logger_info ''Trading signature type:'' w2 else w2)
      in logger_info ''Trading use server time:'' w3)"

text \<open>
  Lines 59-66: the nonce, and the credentials created or derived, or else derived.
\<close>

definition acquire_creds :: "world \<Rightarrow> (js_error + ApiKeyCreds) \<times> world" where
  "acquire_creds w =
     (let (t, w1) = now w;
          nonce = t div 1000;
          (r, w2) = client_createOrDeriveApiKey nonce w1
      in case r of
           Inr cr \<Rightarrow> (Inr cr, w2)
         | Inl err \<Rightarrow>
             client_deriveApiKey nonce
               (logger_warn ''createOrDeriveApiKey failed, attempting derive:'' w2))"

text \<open>
  The whole: the outcome of the promise \<^verbatim>\<open>initClobContext()\<close> returns. The error it
  raises itself is held by its message. Building a \<^verbatim>\<open>ClobClient\<close> raises nothing.
\<close>

definition initClobContext :: "config \<Rightarrow> world \<Rightarrow> (js_error + ClobContext) \<times> world" where
  "initClobContext cfg w =
     (if \<not> truthy (privateKey cfg)
      then (Inl (JsError ''POLY_PRIVATE_KEY is required for trading''), w)
      else
        (case newWallet w (case privateKey cfg of Some k \<Rightarrow> k | None \<Rightarrow> []) of
           Inl e \<Rightarrow> (Inl e, w)
         | Inr sg \<Rightarrow>
            (case acquire_creds (log_signer cfg sg w) of
               (Inl e, w1) \<Rightarrow> (Inl e, w1)
             | (Inr cr, w1) \<Rightarrow>
                 (Inr \<lparr>address_ctx = address sg, funderAddress_ctx = funder_of cfg sg,
                       creds = cr\<rparr>,
                  logger_info ''CLOB client ready for'' w1))))"

text \<open>
  \<^verbatim>\<open>getClobContext\<close>. The result is \<open>Inl e\<close> when the call raises \<open>e\<close> to its caller,
  \<open>Inr None\<close> when it returns \<^verbatim>\<open>null\<close>.
\<close>

definition getClobContext ::
  "config \<Rightarrow> module_state \<Rightarrow> world \<Rightarrow> (js_error + ClobContext option) \<times> module_state \<times> world" where
  "getClobContext cfg m w =
     (if \<not> enabled cfg then (Inr None, m, w)
      else if \<not> truthy (privateKey cfg) then
        (if \<not> warnedMissingKey m
         then (Inr None, m\<lparr>warnedMissingKey := True\<rparr>,
               logger_warn ''TRADING_ENABLED set but POLY_PRIVATE_KEY is missing'' w)
         else (Inr None, m, w))
      else
        (let m1 = m\<lparr>warnedMissingKey := False\<rparr>;
             (p, w1) = (case clobContextPromise m1 of
                          None \<Rightarrow> initClobContext cfg w
                        | Some p \<Rightarrow> (p, w));
             m2 = m1\<lparr>clobContextPromise := Some p\<rparr>
         in case p of
              Inr ctx \<Rightarrow> (Inr (Some ctx), m2, w1)
            | Inl err \<Rightarrow>
                (Inr None, m2\<lparr>clobContextPromise := None\<rparr>,
                 logger_error ''Failed to init CLOB client:'' w1)))"

section \<open>The trading module: order submission\<close>

record order_opts =
  tokenId :: string
  price_opt :: "jsnum option"
  size_opt :: "jsnum option"
  amount :: "jsnum option"
  side :: string
  orderType :: "string option"
  tickSize :: "string option"
  negRisk :: "bool option"
  postOnly :: "bool option"
  returnError :: bool

record OrderResult =
  orderId_res :: string
  status_res :: string
  error_res :: "string option"

text \<open>
  The metadata of an order, lines 119-132 of \<^verbatim>\<open>placeLimitOrder\<close> and 209-222 of
  \<^verbatim>\<open>placeMarketOrder\<close>, which differ in the text of the warning only. \<open>Inl message\<close>
  is the failed fetch.
\<close>

definition order_metadata ::
  "string \<Rightarrow> order_opts \<Rightarrow> world \<Rightarrow> (string + string \<times> bool) \<times> world" where
  "order_metadata warning opts w =
     (case (tickSize opts, negRisk opts) of
        (Some tick, Some neg) \<Rightarrow> (Inr (tick, neg), w)
      | _ \<Rightarrow>
         (case client_getTickSize (tokenId opts) w of
            (Inl err, w1) \<Rightarrow> (Inl (formatError err), logger_warn warning w1)
          | (Inr tick, w1) \<Rightarrow>
             (case client_getNegRisk (tokenId opts) w1 of
                (Inl err, w2) \<Rightarrow> (Inl (formatError err), logger_warn warning w2)
              | (Inr neg, w2) \<Rightarrow> (Inr (tick, neg), w2))))"

text \<open>
  The normalised response, lines 168-195 of \<^verbatim>\<open>placeLimitOrder\<close> and 254-272 of
  \<^verbatim>\<open>placeMarketOrder\<close>, which differ in the texts logged only.
\<close>

text \<open>\<^verbatim>\<open>JSON.stringify(response ?? {})\<close>\<close>

definition stringify :: "post_response option \<Rightarrow> string" where
  "stringify response = (case response of None \<Rightarrow> ''{}'' | Some r \<Rightarrow> json r)"

definition order_result ::
  "string \<Rightarrow> string \<Rightarrow> order_opts \<Rightarrow> post_response option \<Rightarrow> world \<Rightarrow> OrderResult option \<times> world" where
  "order_result warning info opts response w =
     (let oid = (case response of
                   None \<Rightarrow> []
                 | Some r \<Rightarrow> (case orderID r of
                                Some i \<Rightarrow> i
                              | None \<Rightarrow> (case orderId r of Some i \<Rightarrow> i | None \<Rightarrow> [])));
          st = (case response of
                  None \<Rightarrow> []
                | Some r \<Rightarrow> (case status_resp r of Some t \<Rightarrow> t | None \<Rightarrow> []))
      in if oid = [] then
           (let w1 = logger_warn warning w
            in if returnError opts then
                 (let responseText = truncate_js (stringify response) 500
                  in (Some \<lparr>orderId_res = [], status_res = st,
                            error_res = Some (''missing orderId in response: '' @ responseText)\<rparr>,
                      w1))
               else (None, w1))
         else (Some \<lparr>orderId_res = oid, status_res = st, error_res = None\<rparr>,
               logger_info info w))"

definition placeLimitOrder ::
  "config \<Rightarrow> order_opts \<Rightarrow> module_state \<Rightarrow> world
     \<Rightarrow> (js_error + OrderResult option) \<times> module_state \<times> world" where
  "placeLimitOrder cfg opts m w =
     (case getClobContext cfg m w of
        (Inl e, m1, w1) \<Rightarrow> (Inl e, m1, w1)
      | (Inr None, m1, w1) \<Rightarrow>
          (Inr (if returnError opts
                then Some \<lparr>orderId_res = [], status_res = [],
                           error_res = Some ''missing clob context''\<rparr>
                else None), m1, w1)
      | (Inr (Some ctx), m1, w1) \<Rightarrow>
          (case order_metadata ''Failed to fetch order metadata token=%s side=%s: %s'' opts w1 of
             (Inl message, w2) \<Rightarrow>
               (Inr (if returnError opts
                     then Some \<lparr>orderId_res = [], status_res = [],
                                error_res = Some (''metadata fetch failed: '' @ message)\<rparr>
                     else None), m1, w2)
           | (Inr (tick, neg), w2) \<Rightarrow>
               (let w3 = logger_info
                      ''Submitting order token=%s side=%s price=%s size=%s orderType=%s negRisk=%s'' w2;
                    ot = (case orderType opts of Some t \<Rightarrow> t | None \<Rightarrow> ''GTC'');
                    (r, w4) = client_createAndPostOrder
                      (CreateAndPostOrder (tokenId opts) (price_opt opts) (size_opt opts) (side opts)
                         tick neg ot (postOnly opts)) w3
                in case r of
                     Inl err \<Rightarrow>
                       (Inr (if returnError opts
                             then Some \<lparr>orderId_res = [], status_res = [],
                                        error_res = Some (formatError err)\<rparr>
                             else None), m1,
                        logger_error
                          ''createAndPostOrder FAILED token=%s side=%s price=%s size=%s negRisk=%s: %s''
                          w4)
                   | Inr response \<Rightarrow>
                       (let (res, w5) = order_result
                              ''Order response missing orderId token=%s side=%s response=%s''
                              ''Order submitted orderId=%s status=%s token=%s side=%s price=%s size=%s''
                              opts response w4
                        in (Inr res, m1, w5)))))"

definition placeMarketOrder ::
  "config \<Rightarrow> order_opts \<Rightarrow> module_state \<Rightarrow> world
     \<Rightarrow> (js_error + OrderResult option) \<times> module_state \<times> world" where
  "placeMarketOrder cfg opts m w =
     (case getClobContext cfg m w of
        (Inl e, m1, w1) \<Rightarrow> (Inl e, m1, w1)
      | (Inr None, m1, w1) \<Rightarrow>
          (Inr (if returnError opts
                then Some \<lparr>orderId_res = [], status_res = [],
                           error_res = Some ''missing clob context''\<rparr>
                else None), m1, w1)
      | (Inr (Some ctx), m1, w1) \<Rightarrow>
          (case order_metadata ''Failed to fetch market order metadata token=%s side=%s: %s'' opts w1 of
             (Inl message, w2) \<Rightarrow>
               (Inr (if returnError opts
                     then Some \<lparr>orderId_res = [], status_res = [],
                                error_res = Some (''metadata fetch failed: '' @ message)\<rparr>
                     else None), m1, w2)
           | (Inr (tick, neg), w2) \<Rightarrow>
               (let w3 = logger_info
                      ''Submitting MARKET order token=%s side=%s amount=%s orderType=%s negRisk=%s'' w2;
                    ot = (case orderType opts of Some t \<Rightarrow> t | None \<Rightarrow> ''FOK'');
                    (r, w4) = client_createAndPostMarketOrder
                      (CreateAndPostMarketOrder (tokenId opts) (amount opts) (side opts)
                         (price_opt opts) tick neg ot) w3
                in case r of
                     Inl err \<Rightarrow>
                       (Inr (if returnError opts
                             then Some \<lparr>orderId_res = [], status_res = [],
                                        error_res = Some (formatError err)\<rparr>
                             else None), m1,
                        logger_error
                          ''createAndPostMarketOrder FAILED token=%s side=%s amount=%s negRisk=%s: %s''
                          w4)
                   | Inr response \<Rightarrow>
                       (let (res, w5) = order_result
                              ''Market order response missing orderId token=%s side=%s response=%s''
                              ''Market order submitted orderId=%s status=%s token=%s side=%s amount=%s''
                              opts response w4
                        in (Inr res, m1, w5)))))"

section \<open>The trading module: fills\<close>

record Fill =
  filledSize :: jsnum
  avgPrice :: "jsnum option"

text \<open>
  The \<^verbatim>\<open>for\<close> loop of \<^verbatim>\<open>computeFillFromTrades\<close>, with its two accumulators; sums and
  products are rounded to doubles.
\<close>

fun computeFill_loop :: "trade list \<Rightarrow> jsnum \<Rightarrow> jsnum \<Rightarrow> jsnum \<times> jsnum" where
  "computeFill_loop [] fs notional = (fs, notional)"
| "computeFill_loop (t # ts) fs notional =
     (case (size_tr t, price_tr t) of
        (Num sz, Num pr) \<Rightarrow>
          computeFill_loop ts (js_add fs (Num sz)) (js_add notional (js_mul (Num sz) (Num pr)))
      | _ \<Rightarrow> computeFill_loop ts fs notional)"

definition computeFillFromTrades :: "trade list \<Rightarrow> Fill" where
  "computeFillFromTrades ts =
     (let (fs, notional) = computeFill_loop ts (Num 0) (Num 0)
      in \<lparr>filledSize = fs,
          avgPrice = (if js_lt (Num 0) fs then Some (js_div notional fs) else None)\<rparr>)"

text \<open>The \<^verbatim>\<open>for\<close> loop of \<^verbatim>\<open>fetchTradesForOrder\<close>.\<close>

fun fetchTrades_loop :: "string list \<Rightarrow> trade list \<Rightarrow> world \<Rightarrow> trade list \<times> world" where
  "fetchTrades_loop [] acc w = (acc, w)"
| "fetchTrades_loop (tradeId # rest) acc w =
     (case client_getTrades tradeId w of
        (Inr (Some res), w1) \<Rightarrow> fetchTrades_loop rest (if res \<noteq> [] then acc @ res else acc) w1
      | (Inr None, w1) \<Rightarrow> fetchTrades_loop rest acc w1
      | (Inl err, w1) \<Rightarrow>
          fetchTrades_loop rest acc (logger_warn ''Failed to fetch trade %s: %s'' w1))"

definition fetchTradesForOrder :: "order option \<Rightarrow> world \<Rightarrow> trade list \<times> world" where
  "fetchTradesForOrder ord w =
     (case ord of
        None \<Rightarrow> ([], w)
      | Some od \<Rightarrow>
          (let tradeIds = (case associate_trades od of Some ids \<Rightarrow> ids | None \<Rightarrow> [])
           in if tradeIds = [] then ([], w) else fetchTrades_loop tradeIds [] w))"

record FillSnapshot = Fill +
  status_fill :: "string option"
  trades :: "trade list"
  order_snap :: "order option"

record fill_opts =
  maxWaitMs :: "real option"
  pollIntervalMs :: "real option"
  preferTrades :: "bool option"

text \<open>
  One pass through the body of the \<^verbatim>\<open>while\<close> loop of \<^verbatim>\<open>fetchOrderFills\<close> ends in
  one of three ways: the \<^verbatim>\<open>return\<close> of line 337, the \<^verbatim>\<open>break\<close> of line 348, or the
  \<^verbatim>\<open>sleep\<close> of line 350, after which the loop tests its condition again. The last two
  carry the values of \<^verbatim>\<open>lastOrder\<close> and \<^verbatim>\<open>trades\<close>.
\<close>

datatype iteration =
    Returned FillSnapshot
  | Broke "order option" "trade list"
  | Slept "order option" "trade list"

text \<open>Lines 347-350.\<close>

definition break_or_sleep ::
  "real \<Rightarrow> bool \<Rightarrow> order option \<Rightarrow> trade list \<Rightarrow> world \<Rightarrow> iteration \<times> world" where
  "break_or_sleep pollMs prefer lastOrder ts w =
     (if (case lastOrder of
            None \<Rightarrow> False
          | Some od \<Rightarrow> truthy (status od) \<and> status od \<noteq> Some ''live'' \<and> \<not> prefer)
      then (Broke lastOrder ts, w)
      else (Slept lastOrder ts, sleep pollMs w))"

text \<open>Lines 326-350.\<close>

definition poll_iteration ::
  "string \<Rightarrow> real \<Rightarrow> bool \<Rightarrow> trade list \<Rightarrow> world \<Rightarrow> iteration \<times> world" where
  "poll_iteration oid pollMs prefer ts w =
     (let (r, w1) = client_getOrder oid w;
          (lastOrder, w2) =
             (case r of
                Inr od \<Rightarrow> (od, w1)
              | Inl err \<Rightarrow> (None, logger_warn ''Failed to fetch order %s: %s'' w1))
      in case lastOrder of
           None \<Rightarrow> break_or_sleep pollMs prefer lastOrder ts w2
         | Some od \<Rightarrow>
             if (case associate_trades od of Some ids \<Rightarrow> ids \<noteq> [] | None \<Rightarrow> False)
             then
               (let (ts1, w3) = fetchTradesForOrder lastOrder w2;
                    fills = computeFillFromTrades ts1
                in if js_lt (Num 0) (filledSize fills) \<or> status od \<noteq> Some ''live''
                   then (Returned \<lparr>filledSize = filledSize fills, avgPrice = avgPrice fills,
                                   status_fill = status od, trades = ts1,
                                   order_snap = lastOrder\<rparr>, w3)
                   else break_or_sleep pollMs prefer lastOrder ts1 w3)
             else break_or_sleep pollMs prefer lastOrder ts w2)"

text \<open>
  The \<^verbatim>\<open>while\<close> loop. It ends with the snapshot returned from inside it, or leaves
  \<^verbatim>\<open>lastOrder\<close> and \<^verbatim>\<open>trades\<close> to the code after it; \<open>None\<close> is a loop that never ends.
\<close>

datatype loop_exit =
    Return_in_loop FillSnapshot
  | After_loop "order option" "trade list"

partial_function (option) poll_loop ::
  "string \<Rightarrow> real \<Rightarrow> real \<Rightarrow> bool \<Rightarrow> int \<Rightarrow> order option \<Rightarrow> trade list \<Rightarrow> world
     \<Rightarrow> (loop_exit \<times> world) option" where
  "poll_loop oid maxMs pollMs prefer started lastOrder ts w =
     (case now w of
        (t, w1) \<Rightarrow>
          if real_of_int (t - started) \<le> maxMs then
            (case poll_iteration oid pollMs prefer ts w1 of
               (Returned snap, w2) \<Rightarrow> Some (Return_in_loop snap, w2)
             | (Broke lo ts1, w2) \<Rightarrow> Some (After_loop lo ts1, w2)
             | (Slept lo ts1, w2) \<Rightarrow> poll_loop oid maxMs pollMs prefer started lo ts1 w2)
          else Some (After_loop lastOrder ts, w1))"

text \<open>Lines 353-373, the code after the loop.\<close>

definition after_loop :: "bool \<Rightarrow> order option \<Rightarrow> trade list \<Rightarrow> FillSnapshot" where
  "after_loop prefer lastOrder ts =
     (case lastOrder of
        None \<Rightarrow> \<lparr>filledSize = Num 0, avgPrice = None, status_fill = Some ''unknown'',
                  trades = [], order_snap = None\<rparr>
      | Some od \<Rightarrow>
          (let st = (case status od of None \<Rightarrow> Some ''unknown'' | Some x \<Rightarrow> Some x)
           in if prefer then
                (let fills = computeFillFromTrades ts
                 in \<lparr>filledSize = filledSize fills, avgPrice = avgPrice fills,
                     status_fill = st, trades = ts, order_snap = lastOrder\<rparr>)
              else
                (let sizeMatched = (case size_matched od of None \<Rightarrow> Num 0 | Some n \<Rightarrow> n);
                     avgFallback = (case price od of None \<Rightarrow> Num 0 | Some n \<Rightarrow> n)
                 in \<lparr>filledSize = (case sizeMatched of Num x \<Rightarrow> Num x | _ \<Rightarrow> Num 0),
                     avgPrice = (case avgFallback of
                                   Num x \<Rightarrow> if x > 0 then Some (Num x) else None
                                 | _ \<Rightarrow> None),
                     status_fill = st, trades = ts, order_snap = lastOrder\<rparr>)))"

text \<open>
  \<^verbatim>\<open>fetchOrderFills(orderId, {maxWaitMs = 60000, pollIntervalMs = 1500, preferTrades = false} = {})\<close>.
  \<open>None\<close> is a call that never returns; \<open>Some (Inr None, _, _)\<close> is one that returns
  \<^verbatim>\<open>null\<close>.
\<close>

definition fetchOrderFills ::
  "config \<Rightarrow> string \<Rightarrow> fill_opts \<Rightarrow> module_state \<Rightarrow> world
     \<Rightarrow> ((js_error + FillSnapshot option) \<times> module_state \<times> world) option" where
  "fetchOrderFills cfg oid opts m w =
     (let maxMs = (case maxWaitMs opts of None \<Rightarrow> 60000 | Some x \<Rightarrow> x);
          pollMs = (case pollIntervalMs opts of None \<Rightarrow> 1500 | Some x \<Rightarrow> x);
          prefer = (case preferTrades opts of None \<Rightarrow> False | Some b \<Rightarrow> b)
      in case getClobContext cfg m w of
           (Inl e, m1, w1) \<Rightarrow> Some (Inl e, m1, w1)
         | (Inr None, m1, w1) \<Rightarrow> Some (Inr None, m1, w1)
         | (Inr (Some ctx), m1, w1) \<Rightarrow>
             (case now w1 of
                (started, w2) \<Rightarrow>
                  (case poll_loop oid maxMs pollMs prefer started None [] w2 of
                     None \<Rightarrow> None
                   | Some (Return_in_loop snap, w3) \<Rightarrow> Some (Inr (Some snap), m1, w3)
                   | Some (After_loop lastOrder ts, w3) \<Rightarrow>
                       Some (Inr (Some (after_loop prefer lastOrder ts)), m1, w3))))"

section \<open>app/api/trade/limit/route.js: the request handler\<close>















section \<open>Notions the statements use\<close>


text \<open>
  The trades \<^verbatim>\<open>computeFillFromTrades\<close> includes have a finite size and a finite
  price; \<open>sum_size\<close> and \<open>sum_notional\<close> are the sums of size and of size times price over
  them, added from left to right in doubles.
\<close>

definition included :: "trade \<Rightarrow> bool" where
  "included t = (isFinite (size_tr t) \<and> isFinite (price_tr t))"

definition sum_size :: "trade list \<Rightarrow> jsnum" where
  "sum_size ts = foldl js_add (Num 0) (map size_tr (filter included ts))"

definition sum_notional :: "trade list \<Rightarrow> jsnum" where
  "sum_notional ts =
     foldl js_add (Num 0) (map (\<lambda>t. js_mul (size_tr t) (price_tr t)) (filter included ts))"

text \<open>A trade whose size is a finite number that is not negative.\<close>

definition nonneg_size :: "trade \<Rightarrow> bool" where
  "nonneg_size t = (case size_tr t of Num sz \<Rightarrow> 0 \<le> sz | _ \<Rightarrow> False)"

text \<open>
  The leftover of a sale: what is available less the clamped request, as a double.
\<close>

definition leftover :: "real \<Rightarrow> real \<Rightarrow> jsnum" where
  "leftover requested available = fl (available - min requested available)"

text \<open>
  A leftover is short of a minimum by more than the tolerance when the leftover plus
  \<^verbatim>\<open>1e-9\<close> (the double nearest to it), rounded to a double, is smaller than the minimum;
  a leftover or a minimum that is not finite counts as short.
\<close>

definition short_by_tolerance :: "jsnum \<Rightarrow> jsnum \<Rightarrow> bool" where
  "short_by_tolerance l m =
     (case (l, m) of
        (Num x, Num y) \<Rightarrow> js_lt (fl (x + 4835703278458517 / 2 ^ 82)) (Num y)
      | _ \<Rightarrow> True)"

text \<open>A number that is not negative: a finite one from zero on, or the positive infinity.\<close>

fun not_negative :: "jsnum \<Rightarrow> bool" where
  "not_negative (Num a) = (0 \<le> a)"
| "not_negative PosInf = True"
| "not_negative _ = False"

text \<open>
  The promise a call of \<^verbatim>\<open>getClobContext\<close> awaits: the memoized one, or else the one a
  fresh \<^verbatim>\<open>initClobContext()\<close> returns.
\<close>

definition awaited_promise :: "config \<Rightarrow> module_state \<Rightarrow> world \<Rightarrow> js_error + ClobContext" where
  "awaited_promise cfg m w =
     (case clobContextPromise m of None \<Rightarrow> fst (initClobContext cfg w) | Some p \<Rightarrow> p)"

text \<open>How often the warning about the missing key has been logged.\<close>

definition missing_key_warnings :: "world \<Rightarrow> nat" where
  "missing_key_warnings w =
     length (filter (\<lambda>e. e = (WARN, ''TRADING_ENABLED set but POLY_PRIVATE_KEY is missing''))
               (console w))"

text \<open>
  A sequence of calls of \<^verbatim>\<open>getClobContext\<close>, one after another, each under the
  configuration it finds.
\<close>

fun getClobContext_calls :: "config list \<Rightarrow> module_state \<Rightarrow> world \<Rightarrow> module_state \<times> world" where
  "getClobContext_calls [] m w = (m, w)"
| "getClobContext_calls (cfg # cfgs) m w =
     (case getClobContext cfg m w of (r, m1, w1) \<Rightarrow> getClobContext_calls cfgs m1 w1)"

text \<open>
  The missing-key episodes that begin in a sequence of calls: \<open>episodes prev bs\<close> counts
  the calls that find the key missing (\<open>True\<close> in \<open>bs\<close>) after a call that found it
  configured; \<open>prev\<close> tells whether an episode is under way before the first call.
\<close>

fun episodes :: "bool \<Rightarrow> bool list \<Rightarrow> nat" where
  "episodes prev [] = 0"
| "episodes prev (b # bs) = (if b \<and> \<not> prev then 1 else 0) + episodes b bs"

text \<open>No order snapshot: \<^verbatim>\<open>client.getOrder\<close> raised, or returned nothing.\<close>

fun no_snapshot :: "js_error + order option \<Rightarrow> bool" where
  "no_snapshot (Inl e) = True"
| "no_snapshot (Inr None) = True"
| "no_snapshot (Inr (Some od)) = False"

text \<open>
  A response that carries no order identifier: none at all, or both alias fields absent
  or empty.
\<close>

definition no_order_id :: "post_response option \<Rightarrow> bool" where
  "no_order_id response =
     (case response of
        None \<Rightarrow> True
      | Some r \<Rightarrow> (orderID r = None \<or> orderID r = Some []) \<and> (orderId r = None \<or> orderId r = Some []))"

text \<open>
  Tick size and negative-risk flag are at hand: both supplied by the caller, or both
  fetches succeed.
\<close>

definition metadata_resolved :: "order_opts \<Rightarrow> world \<Rightarrow> bool" where
  "metadata_resolved opts w =
     ((tickSize opts \<noteq> None \<and> negRisk opts \<noteq> None) \<or>
      (\<not> isl (reply (getTickSize w) (calls (getTickSize w))) \<and>
       \<not> isl (reply (getNegRisk w) (calls (getNegRisk w)))))"

section \<open>Concrete inputs\<close>

text \<open>
  A world in which the clock advances by a second between two readings, creating an API
  key fails and deriving one succeeds, every order fetch fails and an order submission
  is answered without an identifier.
\<close>

definition example_world :: world where
  "example_world =
     \<lparr>Date_now = \<lparr>reply = (\<lambda>n. 1000 * int n), calls = 0\<rparr>,
      newWallet = (\<lambda>k. Inr \<lparr>address = ''0xA1'', has_signTypedData_v5 = False,
                             has_signTypedData = True\<rparr>),
      createOrDeriveApiKey = \<lparr>reply = (\<lambda>n. Inl (JsError ''HTTP 500'')), calls = 0\<rparr>,
      deriveApiKey = \<lparr>reply = (\<lambda>n. Inr (ApiKeyCreds ''key'' ''secret'' ''pass'')), calls = 0\<rparr>,
      getTickSize = \<lparr>reply = (\<lambda>n. Inr ''0.01''), calls = 0\<rparr>,
      getNegRisk = \<lparr>reply = (\<lambda>n. Inr False), calls = 0\<rparr>,
      createAndPostOrder = \<lparr>reply = (\<lambda>n. Inr None), calls = 0\<rparr>,
      createAndPostMarketOrder =
        \<lparr>reply = (\<lambda>n. Inr (Some \<lparr>orderID = None, orderId = None,
                                     status_resp = Some ''rejected'',
                                     json = replicate 600 (CHR ''x'')\<rparr>)), calls = 0\<rparr>,
      getOrder = \<lparr>reply = (\<lambda>n. Inl (JsError ''ECONNRESET'')), calls = 0\<rparr>,
      getTrades = \<lparr>reply = (\<lambda>n. Inr (Some [\<lparr>size_tr = Num 2, price_tr = Num (1 / 2)\<rparr>])),
                   calls = 0\<rparr>,
      sent = [], console = [], slept = []\<rparr>"

definition example_config :: config where
  "example_config =
     \<lparr>enabled = True, privateKey = Some ''0xkey'', funderAddress = None, signatureType = None,
      clobApi = ''https://clob.example'', useServerTime = False\<rparr>"

definition example_context :: ClobContext where
  "example_context =
     \<lparr>address_ctx = ''0xA1'', funderAddress_ctx = ''0xA1'',
      creds = ApiKeyCreds ''key'' ''secret'' ''pass''\<rparr>"

definition ready_module_state :: module_state where
  "ready_module_state =
     \<lparr>clobContextPromise = Some (Inr example_context), warnedMissingKey = False\<rparr>"

definition example_opts :: order_opts where
  "example_opts =
     \<lparr>tokenId = ''token-1'', price_opt = Some (Num (1 / 2)), size_opt = Some (Num 10),
      amount = Some (Num 10), side = ''BUY'', orderType = None, tickSize = Some ''0.01'',
      negRisk = Some False, postOnly = None, returnError = True\<rparr>"

text \<open>The same world with a private key the wallet rejects.\<close>

definition broken_wallet_world :: world where
  "broken_wallet_world = example_world\<lparr>newWallet := (\<lambda>k. Inl (JsError ''invalid private key''))\<rparr>"

definition no_key_config :: config where
  "no_key_config = example_config\<lparr>privateKey := None\<rparr>"

definition disabled_config :: config where
  "disabled_config = example_config\<lparr>enabled := False\<rparr>"

definition default_fill_opts :: fill_opts where
  "default_fill_opts = \<lparr>maxWaitMs = None, pollIntervalMs = None, preferTrades = None\<rparr>"

text \<open>A live order with one trade, and a canceled order with none.\<close>

definition filled_order :: order where
  "filled_order =
     \<lparr>status = Some ''live'', associate_trades = Some [''trade-1''],
      size_matched = Some (Num 2), price = Some (Num (1 / 2))\<rparr>"

definition canceled_order :: order where
  "canceled_order =
     \<lparr>status = Some ''canceled'', associate_trades = Some [],
      size_matched = Some (Num 0), price = Some (Num (1 / 2))\<rparr>"

definition filled_world :: world where
  "filled_world = example_world\<lparr>getOrder := \<lparr>reply = (\<lambda>n. Inr (Some filled_order)), calls = 0\<rparr>\<rparr>"

definition canceled_world :: world where
  "canceled_world =
     example_world\<lparr>getOrder := \<lparr>reply = (\<lambda>n. Inr (Some canceled_order)), calls = 0\<rparr>\<rparr>"


section \<open>Lemmas: what each operation leaves untouched\<close>

lemmas world_ops =
  now_def next_reply_def logger_info_def logger_warn_def logger_error_def sleep_def
  client_createOrDeriveApiKey_def client_deriveApiKey_def client_getTickSize_def
  client_getNegRisk_def client_createAndPostOrder_def client_createAndPostMarketOrder_def
  client_getOrder_def client_getTrades_def

lemma world_frame [simp]:
  "Date_now (logger_info msg w) = Date_now w"
  "newWallet (logger_info msg w) = newWallet w"
  "createOrDeriveApiKey (logger_info msg w) = createOrDeriveApiKey w"
  "deriveApiKey (logger_info msg w) = deriveApiKey w"
  "getTickSize (logger_info msg w) = getTickSize w"
  "getNegRisk (logger_info msg w) = getNegRisk w"
  "createAndPostOrder (logger_info msg w) = createAndPostOrder w"
  "createAndPostMarketOrder (logger_info msg w) = createAndPostMarketOrder w"
  "getOrder (logger_info msg w) = getOrder w"
  "getTrades (logger_info msg w) = getTrades w"
  "slept (logger_info msg w) = slept w"
  "Date_now (logger_warn msg w) = Date_now w"
  "newWallet (logger_warn msg w) = newWallet w"
  "createOrDeriveApiKey (logger_warn msg w) = createOrDeriveApiKey w"
  "deriveApiKey (logger_warn msg w) = deriveApiKey w"
  "getTickSize (logger_warn msg w) = getTickSize w"
  "getNegRisk (logger_warn msg w) = getNegRisk w"
  "createAndPostOrder (logger_warn msg w) = createAndPostOrder w"
  "createAndPostMarketOrder (logger_warn msg w) = createAndPostMarketOrder w"
  "getOrder (logger_warn msg w) = getOrder w"
  "getTrades (logger_warn msg w) = getTrades w"
  "slept (logger_warn msg w) = slept w"
  "Date_now (logger_error msg w) = Date_now w"
  "newWallet (logger_error msg w) = newWallet w"
  "createOrDeriveApiKey (logger_error msg w) = createOrDeriveApiKey w"
  "deriveApiKey (logger_error msg w) = deriveApiKey w"
  "getTickSize (logger_error msg w) = getTickSize w"
  "getNegRisk (logger_error msg w) = getNegRisk w"
  "createAndPostOrder (logger_error msg w) = createAndPostOrder w"
  "createAndPostMarketOrder (logger_error msg w) = createAndPostMarketOrder w"
  "getOrder (logger_error msg w) = getOrder w"
  "getTrades (logger_error msg w) = getTrades w"
  "slept (logger_error msg w) = slept w"
  "Date_now (sleep ms w) = Date_now w"
  "newWallet (sleep ms w) = newWallet w"
  "createOrDeriveApiKey (sleep ms w) = createOrDeriveApiKey w"
  "deriveApiKey (sleep ms w) = deriveApiKey w"
  "getTickSize (sleep ms w) = getTickSize w"
  "getNegRisk (sleep ms w) = getNegRisk w"
  "createAndPostOrder (sleep ms w) = createAndPostOrder w"
  "createAndPostMarketOrder (sleep ms w) = createAndPostMarketOrder w"
  "getOrder (sleep ms w) = getOrder w"
  "getTrades (sleep ms w) = getTrades w"
  "console (sleep ms w) = console w"
  "newWallet (snd (now w)) = newWallet w"
  "createOrDeriveApiKey (snd (now w)) = createOrDeriveApiKey w"
  "deriveApiKey (snd (now w)) = deriveApiKey w"
  "getTickSize (snd (now w)) = getTickSize w"
  "getNegRisk (snd (now w)) = getNegRisk w"
  "createAndPostOrder (snd (now w)) = createAndPostOrder w"
  "createAndPostMarketOrder (snd (now w)) = createAndPostMarketOrder w"
  "getOrder (snd (now w)) = getOrder w"
  "getTrades (snd (now w)) = getTrades w"
  "console (snd (now w)) = console w"
  "slept (snd (now w)) = slept w"
  "Date_now (snd (client_createOrDeriveApiKey n w)) = Date_now w"
  "newWallet (snd (client_createOrDeriveApiKey n w)) = newWallet w"
  "deriveApiKey (snd (client_createOrDeriveApiKey n w)) = deriveApiKey w"
  "getTickSize (snd (client_createOrDeriveApiKey n w)) = getTickSize w"
  "getNegRisk (snd (client_createOrDeriveApiKey n w)) = getNegRisk w"
  "createAndPostOrder (snd (client_createOrDeriveApiKey n w)) = createAndPostOrder w"
  "createAndPostMarketOrder (snd (client_createOrDeriveApiKey n w)) = createAndPostMarketOrder w"
  "getOrder (snd (client_createOrDeriveApiKey n w)) = getOrder w"
  "getTrades (snd (client_createOrDeriveApiKey n w)) = getTrades w"
  "console (snd (client_createOrDeriveApiKey n w)) = console w"
  "slept (snd (client_createOrDeriveApiKey n w)) = slept w"
  "Date_now (snd (client_deriveApiKey n w)) = Date_now w"
  "newWallet (snd (client_deriveApiKey n w)) = newWallet w"
  "createOrDeriveApiKey (snd (client_deriveApiKey n w)) = createOrDeriveApiKey w"
  "getTickSize (snd (client_deriveApiKey n w)) = getTickSize w"
  "getNegRisk (snd (client_deriveApiKey n w)) = getNegRisk w"
  "createAndPostOrder (snd (client_deriveApiKey n w)) = createAndPostOrder w"
  "createAndPostMarketOrder (snd (client_deriveApiKey n w)) = createAndPostMarketOrder w"
  "getOrder (snd (client_deriveApiKey n w)) = getOrder w"
  "getTrades (snd (client_deriveApiKey n w)) = getTrades w"
  "console (snd (client_deriveApiKey n w)) = console w"
  "slept (snd (client_deriveApiKey n w)) = slept w"
  "Date_now (snd (client_getTickSize tid w)) = Date_now w"
  "newWallet (snd (client_getTickSize tid w)) = newWallet w"
  "createOrDeriveApiKey (snd (client_getTickSize tid w)) = createOrDeriveApiKey w"
  "deriveApiKey (snd (client_getTickSize tid w)) = deriveApiKey w"
  "getNegRisk (snd (client_getTickSize tid w)) = getNegRisk w"
  "createAndPostOrder (snd (client_getTickSize tid w)) = createAndPostOrder w"
  "createAndPostMarketOrder (snd (client_getTickSize tid w)) = createAndPostMarketOrder w"
  "getOrder (snd (client_getTickSize tid w)) = getOrder w"
  "getTrades (snd (client_getTickSize tid w)) = getTrades w"
  "console (snd (client_getTickSize tid w)) = console w"
  "slept (snd (client_getTickSize tid w)) = slept w"
  "Date_now (snd (client_getNegRisk tid w)) = Date_now w"
  "newWallet (snd (client_getNegRisk tid w)) = newWallet w"
  "createOrDeriveApiKey (snd (client_getNegRisk tid w)) = createOrDeriveApiKey w"
  "deriveApiKey (snd (client_getNegRisk tid w)) = deriveApiKey w"
  "getTickSize (snd (client_getNegRisk tid w)) = getTickSize w"
  "createAndPostOrder (snd (client_getNegRisk tid w)) = createAndPostOrder w"
  "createAndPostMarketOrder (snd (client_getNegRisk tid w)) = createAndPostMarketOrder w"
  "getOrder (snd (client_getNegRisk tid w)) = getOrder w"
  "getTrades (snd (client_getNegRisk tid w)) = getTrades w"
  "console (snd (client_getNegRisk tid w)) = console w"
  "slept (snd (client_getNegRisk tid w)) = slept w"
  "Date_now (snd (client_createAndPostOrder rq w)) = Date_now w"
  "newWallet (snd (client_createAndPostOrder rq w)) = newWallet w"
  "createOrDeriveApiKey (snd (client_createAndPostOrder rq w)) = createOrDeriveApiKey w"
  "deriveApiKey (snd (client_createAndPostOrder rq w)) = deriveApiKey w"
  "getTickSize (snd (client_createAndPostOrder rq w)) = getTickSize w"
  "getNegRisk (snd (client_createAndPostOrder rq w)) = getNegRisk w"
  "createAndPostMarketOrder (snd (client_createAndPostOrder rq w)) = createAndPostMarketOrder w"
  "getOrder (snd (client_createAndPostOrder rq w)) = getOrder w"
  "getTrades (snd (client_createAndPostOrder rq w)) = getTrades w"
  "console (snd (client_createAndPostOrder rq w)) = console w"
  "slept (snd (client_createAndPostOrder rq w)) = slept w"
  "Date_now (snd (client_createAndPostMarketOrder rq w)) = Date_now w"
  "newWallet (snd (client_createAndPostMarketOrder rq w)) = newWallet w"
  "createOrDeriveApiKey (snd (client_createAndPostMarketOrder rq w)) = createOrDeriveApiKey w"
  "deriveApiKey (snd (client_createAndPostMarketOrder rq w)) = deriveApiKey w"
  "getTickSize (snd (client_createAndPostMarketOrder rq w)) = getTickSize w"
  "getNegRisk (snd (client_createAndPostMarketOrder rq w)) = getNegRisk w"
  "createAndPostOrder (snd (client_createAndPostMarketOrder rq w)) = createAndPostOrder w"
  "getOrder (snd (client_createAndPostMarketOrder rq w)) = getOrder w"
  "getTrades (snd (client_createAndPostMarketOrder rq w)) = getTrades w"
  "console (snd (client_createAndPostMarketOrder rq w)) = console w"
  "slept (snd (client_createAndPostMarketOrder rq w)) = slept w"
  "Date_now (snd (client_getOrder oid w)) = Date_now w"
  "newWallet (snd (client_getOrder oid w)) = newWallet w"
  "createOrDeriveApiKey (snd (client_getOrder oid w)) = createOrDeriveApiKey w"
  "deriveApiKey (snd (client_getOrder oid w)) = deriveApiKey w"
  "getTickSize (snd (client_getOrder oid w)) = getTickSize w"
  "getNegRisk (snd (client_getOrder oid w)) = getNegRisk w"
  "createAndPostOrder (snd (client_getOrder oid w)) = createAndPostOrder w"
  "createAndPostMarketOrder (snd (client_getOrder oid w)) = createAndPostMarketOrder w"
  "getTrades (snd (client_getOrder oid w)) = getTrades w"
  "console (snd (client_getOrder oid w)) = console w"
  "slept (snd (client_getOrder oid w)) = slept w"
  "Date_now (snd (client_getTrades tid w)) = Date_now w"
  "newWallet (snd (client_getTrades tid w)) = newWallet w"
  "createOrDeriveApiKey (snd (client_getTrades tid w)) = createOrDeriveApiKey w"
  "deriveApiKey (snd (client_getTrades tid w)) = deriveApiKey w"
  "getTickSize (snd (client_getTrades tid w)) = getTickSize w"
  "getNegRisk (snd (client_getTrades tid w)) = getNegRisk w"
  "createAndPostOrder (snd (client_getTrades tid w)) = createAndPostOrder w"
  "createAndPostMarketOrder (snd (client_getTrades tid w)) = createAndPostMarketOrder w"
  "getOrder (snd (client_getTrades tid w)) = getOrder w"
  "console (snd (client_getTrades tid w)) = console w"
  "slept (snd (client_getTrades tid w)) = slept w"
  by (simp_all add: world_ops split_beta)

lemma console_log [simp]:
  "console (logger_info msg w) = console w @ [(INFO, msg)]"
  "console (logger_warn msg w) = console w @ [(WARN, msg)]"
  "console (logger_error msg w) = console w @ [(ERROR, msg)]"
  by (simp_all add: world_ops)

lemma log_signer_frame [simp]:
  "Date_now (log_signer cfg sg w) = Date_now w"
  "createOrDeriveApiKey (log_signer cfg sg w) = createOrDeriveApiKey w"
  "deriveApiKey (log_signer cfg sg w) = deriveApiKey w"
  "getTickSize (log_signer cfg sg w) = getTickSize w"
  "getNegRisk (log_signer cfg sg w) = getNegRisk w"
  "createAndPostOrder (log_signer cfg sg w) = createAndPostOrder w"
  "createAndPostMarketOrder (log_signer cfg sg w) = createAndPostMarketOrder w"
  "getOrder (log_signer cfg sg w) = getOrder w"
  "getTrades (log_signer cfg sg w) = getTrades w"
  "slept (log_signer cfg sg w) = slept w"
  by (simp_all add: log_signer_def Let_def)

lemma acquire_creds_frame [simp]:
  "getTickSize (snd (acquire_creds w)) = getTickSize w"
  "getNegRisk (snd (acquire_creds w)) = getNegRisk w"
  "createAndPostOrder (snd (acquire_creds w)) = createAndPostOrder w"
  "createAndPostMarketOrder (snd (acquire_creds w)) = createAndPostMarketOrder w"
  "getOrder (snd (acquire_creds w)) = getOrder w"
  "getTrades (snd (acquire_creds w)) = getTrades w"
  "slept (snd (acquire_creds w)) = slept w"
  by (simp_all add: acquire_creds_def Let_def split_beta split: sum.split)

lemma initClobContext_frame [simp]:
  "getTickSize (snd (initClobContext cfg w)) = getTickSize w"
  "getNegRisk (snd (initClobContext cfg w)) = getNegRisk w"
  "createAndPostOrder (snd (initClobContext cfg w)) = createAndPostOrder w"
  "createAndPostMarketOrder (snd (initClobContext cfg w)) = createAndPostMarketOrder w"
  "getOrder (snd (initClobContext cfg w)) = getOrder w"
  "getTrades (snd (initClobContext cfg w)) = getTrades w"
  "slept (snd (initClobContext cfg w)) = slept w"
  by (simp_all add: initClobContext_def split_beta split: sum.split)

lemma warnings_frame [simp]:
  "missing_key_warnings (logger_info msg w) = missing_key_warnings w"
  "missing_key_warnings (logger_error msg w) = missing_key_warnings w"
  "missing_key_warnings (logger_warn msg w) =
     missing_key_warnings w +
       (if msg = ''TRADING_ENABLED set but POLY_PRIVATE_KEY is missing'' then 1 else 0)"
  "missing_key_warnings (snd (now w)) = missing_key_warnings w"
  "missing_key_warnings (snd (client_createOrDeriveApiKey n w)) = missing_key_warnings w"
  "missing_key_warnings (snd (client_deriveApiKey n w)) = missing_key_warnings w"
  by (simp_all add: missing_key_warnings_def)

lemma log_signer_warnings [simp]:
  "missing_key_warnings (log_signer cfg sg w) = missing_key_warnings w"
  by (simp add: log_signer_def Let_def)

lemma acquire_creds_warnings [simp]:
  "missing_key_warnings (snd (acquire_creds w)) = missing_key_warnings w"
  by (simp add: acquire_creds_def Let_def split_beta split: sum.split)

lemma initClobContext_warnings [simp]:
  "missing_key_warnings (snd (initClobContext cfg w)) = missing_key_warnings w"
  by (simp add: initClobContext_def split_beta split: sum.split)

lemma getClobContext_eq:
  "getClobContext cfg m w =
     (if \<not> enabled cfg then (Inr None, m, w)
      else if \<not> truthy (privateKey cfg) then
        (if warnedMissingKey m then (Inr None, m, w)
         else (Inr None, m\<lparr>warnedMissingKey := True\<rparr>,
               logger_warn ''TRADING_ENABLED set but POLY_PRIVATE_KEY is missing'' w))
      else (case awaited_promise cfg m w of
              Inr ctx \<Rightarrow>
                (Inr (Some ctx), \<lparr>clobContextPromise = Some (Inr ctx), warnedMissingKey = False\<rparr>,
                 if clobContextPromise m = None then snd (initClobContext cfg w) else w)
            | Inl e \<Rightarrow>
                (Inr None, \<lparr>clobContextPromise = None, warnedMissingKey = False\<rparr>,
                 logger_error ''Failed to init CLOB client:''
                   (if clobContextPromise m = None then snd (initClobContext cfg w) else w))))"
  by (cases "initClobContext cfg w")
     (auto simp: getClobContext_def awaited_promise_def Let_def split: option.splits sum.splits)

lemma getClobContext_frame [simp]:
  "getTickSize (snd (snd (getClobContext cfg m w))) = getTickSize w"
  "getNegRisk (snd (snd (getClobContext cfg m w))) = getNegRisk w"
  "createAndPostOrder (snd (snd (getClobContext cfg m w))) = createAndPostOrder w"
  "createAndPostMarketOrder (snd (snd (getClobContext cfg m w))) = createAndPostMarketOrder w"
  "getOrder (snd (snd (getClobContext cfg m w))) = getOrder w"
  "getTrades (snd (snd (getClobContext cfg m w))) = getTrades w"
  "slept (snd (snd (getClobContext cfg m w))) = slept w"
  by (simp_all add: getClobContext_eq split: sum.split)

lemma next_call [simp]:
  "fst (now w) = reply (Date_now w) (calls (Date_now w))"
  "reply (Date_now (snd (now w))) = reply (Date_now w)"
  "calls (Date_now (snd (now w))) = Suc (calls (Date_now w))"
  "fst (client_getOrder oid w) = reply (getOrder w) (calls (getOrder w))"
  "reply (getOrder (snd (client_getOrder oid w))) = reply (getOrder w)"
  "calls (getOrder (snd (client_getOrder oid w))) = Suc (calls (getOrder w))"
  "fst (client_getTickSize tid w) = reply (getTickSize w) (calls (getTickSize w))"
  "fst (client_getNegRisk tid w) = reply (getNegRisk w) (calls (getNegRisk w))"
  "fst (client_createAndPostOrder rq w) = reply (createAndPostOrder w) (calls (createAndPostOrder w))"
  "fst (client_createAndPostMarketOrder rq w) =
     reply (createAndPostMarketOrder w) (calls (createAndPostMarketOrder w))"
  by (simp_all add: world_ops split_beta)

lemma fetchTrades_loop_frame [simp]:
  "Date_now (snd (fetchTrades_loop ids acc w)) = Date_now w \<and>
   getOrder (snd (fetchTrades_loop ids acc w)) = getOrder w \<and>
   slept (snd (fetchTrades_loop ids acc w)) = slept w"
  by (induction ids arbitrary: acc w) (simp_all add: split_beta split: sum.split option.split)

lemma fetchTradesForOrder_frame [simp]:
  "Date_now (snd (fetchTradesForOrder ord w)) = Date_now w"
  "getOrder (snd (fetchTradesForOrder ord w)) = getOrder w"
  "slept (snd (fetchTradesForOrder ord w)) = slept w"
  by (simp_all add: fetchTradesForOrder_def Let_def split: option.split)

section \<open>Lemmas: fills, polling, submission\<close>

lemmas fl_eval = fl_def exponent_def pow2_def round_even_def Let_def

lemma poll_iteration_no_snapshot:
  assumes "no_snapshot (reply (getOrder w) (calls (getOrder w)))"
  shows "\<exists>w'. poll_iteration oid pollMs prefer ts w = (Slept None ts, w') \<and>
           Date_now w' = Date_now w \<and>
           reply (getOrder w') = reply (getOrder w) \<and>
           calls (getOrder w') = Suc (calls (getOrder w))"
proof (cases "reply (getOrder w) (calls (getOrder w))")
  case (Inl e)
  then show ?thesis
    by (simp add: poll_iteration_def split_beta break_or_sleep_def)
next
  case (Inr ord)
  with assms have "ord = None" by (cases ord) simp_all
  with Inr show ?thesis
    by (simp add: poll_iteration_def split_beta break_or_sleep_def)
qed

lemma poll_loop_no_snapshot:
  assumes "\<forall>i<n. real_of_int (reply (Date_now w) (calls (Date_now w) + i) - started) \<le> maxMs"
    and "\<not> real_of_int (reply (Date_now w) (calls (Date_now w) + n) - started) \<le> maxMs"
    and "\<forall>i<n. no_snapshot (reply (getOrder w) (calls (getOrder w) + i))"
  shows "\<exists>w'. poll_loop oid maxMs pollMs prefer started None ts w = Some (After_loop None ts, w')"
  using assms
proof (induction n arbitrary: w)
  case 0
  then show ?case
    by (subst poll_loop.simps) (simp add: split_beta)
next
  case (Suc n)
  from Suc.prems(1) have g0: "real_of_int (reply (Date_now w) (calls (Date_now w)) - started) \<le> maxMs"
    by (metis add.right_neutral zero_less_Suc)
  from Suc.prems(3) have "no_snapshot (reply (getOrder w) (calls (getOrder w)))"
    by (metis add.right_neutral zero_less_Suc)
  then have "no_snapshot (reply (getOrder (snd (now w))) (calls (getOrder (snd (now w)))))"
    by simp
  then have "\<exists>w'. poll_iteration oid pollMs prefer ts (snd (now w)) = (Slept None ts, w') \<and>
           Date_now w' = Date_now (snd (now w)) \<and>
           reply (getOrder w') = reply (getOrder (snd (now w))) \<and>
           calls (getOrder w') = Suc (calls (getOrder (snd (now w))))"
    by (rule poll_iteration_no_snapshot)
  then obtain w2 where it: "poll_iteration oid pollMs prefer ts (snd (now w)) = (Slept None ts, w2)"
    and d: "Date_now w2 = Date_now (snd (now w))"
    and r: "reply (getOrder w2) = reply (getOrder w)"
    and c: "calls (getOrder w2) = Suc (calls (getOrder w))"
    by auto
  have 1: "\<forall>i<n. real_of_int (reply (Date_now w2) (calls (Date_now w2) + i) - started) \<le> maxMs"
    using Suc.prems(1) d by auto
  have 2: "\<not> real_of_int (reply (Date_now w2) (calls (Date_now w2) + n) - started) \<le> maxMs"
    using Suc.prems(2) d by auto
  have 3: "\<forall>i<n. no_snapshot (reply (getOrder w2) (calls (getOrder w2) + i))"
    using Suc.prems(3) r c by auto
  from Suc.IH[OF 1 2 3] obtain w' where
    "poll_loop oid maxMs pollMs prefer started None ts w2 = Some (After_loop None ts, w')" ..
  with g0 it show ?case
    by (subst poll_loop.simps) (simp add: split_beta)
qed

lemma order_metadata_resolved:
  assumes "metadata_resolved opts w"
  shows "\<exists>tick neg w2. order_metadata warning opts w = (Inr (tick, neg), w2) \<and>
           createAndPostOrder w2 = createAndPostOrder w \<and>
           createAndPostMarketOrder w2 = createAndPostMarketOrder w"
proof (cases "tickSize opts \<noteq> None \<and> negRisk opts \<noteq> None")
  case True
  then show ?thesis by (auto simp: order_metadata_def)
next
  case False
  with assms obtain tick neg where
    "reply (getTickSize w) (calls (getTickSize w)) = Inr tick"
    "reply (getNegRisk w) (calls (getNegRisk w)) = Inr neg"
    by (cases "reply (getTickSize w) (calls (getTickSize w))";
        cases "reply (getNegRisk w) (calls (getNegRisk w))")
       (auto simp: metadata_resolved_def)
  with False show ?thesis
    by (cases "tickSize opts"; cases "negRisk opts") (simp_all add: order_metadata_def split_beta)
qed

lemma order_result_no_id:
  assumes "no_order_id response"
  shows "fst (order_result warning info opts response w) =
           (if returnError opts
            then Some \<lparr>orderId_res = [],
                       status_res = (case response of
                                       None \<Rightarrow> []
                                     | Some r \<Rightarrow> (case status_resp r of None \<Rightarrow> [] | Some s \<Rightarrow> s)),
                       error_res = Some (''missing orderId in response: '' @
                                         take 500 (stringify response) @
                                         (if 500 < length (stringify response) then ''...'' else []))\<rparr>
            else None)"
proof -
  from assms have "(case response of
                   None \<Rightarrow> []
                 | Some r \<Rightarrow> (case orderID r of
                                Some i \<Rightarrow> i
                              | None \<Rightarrow> (case orderId r of Some i \<Rightarrow> i | None \<Rightarrow> []))) = []"
    by (auto simp: no_order_id_def split: option.splits)
  then show ?thesis
    by (simp add: order_result_def Let_def truncate_js_def)
qed

lemma step_flag:
  "enabled cfg \<Longrightarrow>
   getClobContext cfg m w = (r, m1, w1) \<Longrightarrow>
   warnedMissingKey m1 = (\<not> truthy (privateKey cfg)) \<and>
   missing_key_warnings w1 =
     missing_key_warnings w + (if \<not> truthy (privateKey cfg) \<and> \<not> warnedMissingKey m then 1 else 0)"
  by (auto simp: getClobContext_eq split: sum.splits if_splits)

lemma calls_count:
  "\<forall>cfg \<in> set cfgs. enabled cfg \<Longrightarrow>
   missing_key_warnings (snd (getClobContext_calls cfgs m w)) =
     missing_key_warnings w +
       episodes (warnedMissingKey m) (map (\<lambda>cfg. \<not> truthy (privateKey cfg)) cfgs)"
proof (induction cfgs arbitrary: m w)
  case Nil
  then show ?case by simp
next
  case (Cons cfg cfgs)
  obtain r m1 w1 where step: "getClobContext cfg m w = (r, m1, w1)"
    by (cases "getClobContext cfg m w") auto
  from Cons.prems have en: "enabled cfg" and rest: "\<forall>c \<in> set cfgs. enabled c" by simp_all
  from step_flag[OF en step] Cons.IH[OF rest, of m1 w1] step
  show ?case by simp
qed

section \<open>Lemmas: doubles, sizing, fill aggregation\<close>

lemma pow2_pos: "0 < pow2 e"
  by (simp add: pow2_def)

lemma round_even_nonneg: "0 \<le> q \<Longrightarrow> 0 \<le> round_even q"
  by (simp add: round_even_def Let_def)

lemma fl_nonneg: "0 \<le> x \<Longrightarrow> fl x = PosInf \<or> (\<exists>y\<ge>0. fl x = Num y)"
proof -
  assume x: "0 \<le> x"
  let ?u = "pow2 (exponent x - 52)"
  from x pow2_pos [of "exponent x - 52"] have "0 \<le> x / ?u" by simp
  then have "0 \<le> round_even (x / ?u)" by (rule round_even_nonneg)
  then have "0 \<le> real_of_int (round_even (x / ?u)) * ?u"
    using pow2_pos [of "exponent x - 52"] by simp
  then show ?thesis
    by (simp add: fl_def Let_def)
qed

lemma fl_not_NaN: "fl x \<noteq> NaN"
  by (simp add: fl_def Let_def)

lemma fl_zero: "fl 0 = Num 0"
  by (simp add: fl_eval)

lemma epsilon_double: "fl NUMERIC_EPSILON = Num (4835703278458517 / 2 ^ 82)" "fl (1 / 10 ^ 9) = Num (4835703278458517 / 2 ^ 82)"
  by (simp_all add: NUMERIC_EPSILON_def fl_eval)

text \<open>
The sizing helpers, in the terms the statements use.
\<close>

lemma isBelowMin_double_eq: "isBelowMin_double l m = short_by_tolerance l m"
  by (cases l; cases m) (simp_all add: short_by_tolerance_def epsilon_double(1))

lemma minSellSharesAtPrice_eq:
  "minSellSharesAtPrice pr =
     (case pr of Num p \<Rightarrow> if 0 < p then js_max (Num 5) (fl (1 / p)) else Num 5 | _ \<Rightarrow> Num 5)"
  by (cases pr) (simp_all add: MIN_ORDER_SHARES_def MIN_ORDER_NOTIONAL_USD_def)

lemma adjustSellAmountToAvoidDust_eq:
  "adjustSellAmountToAvoidDust (Num requested) (Num available) pr =
     (if js_lt (Num 0) (leftover requested available) \<and>
         short_by_tolerance (leftover requested available) (minSellSharesAtPrice pr)
      then Num available else Num (min requested available))"
  by (simp only: adjustSellAmountToAvoidDust.simps Let_def js_sub.simps leftover_def
        isBelowMin_double_eq)

text \<open>
The loop of \<^verbatim>\<open>computeFillFromTrades\<close> adds up the included trades from left to right;
  a sum of sizes none of which is negative is not negative.
\<close>

lemma computeFill_loop_sums:
  "computeFill_loop ts fs n =
     (foldl js_add fs (map size_tr (filter included ts)),
      foldl js_add n (map (\<lambda>t. js_mul (size_tr t) (price_tr t)) (filter included ts)))"
proof (induction ts arbitrary: fs n)
  case Nil
  show ?case by simp
next
  case (Cons t ts)
  show ?case
    by (cases "size_tr t"; cases "price_tr t") (simp_all add: Cons.IH included_def)
qed

lemma computeFillFromTrades_eq:
  "computeFillFromTrades ts =
     \<lparr>filledSize = sum_size ts,
      avgPrice = (if js_lt (Num 0) (sum_size ts)
                  then Some (js_div (sum_notional ts) (sum_size ts)) else None)\<rparr>"
  by (simp add: computeFillFromTrades_def computeFill_loop_sums sum_size_def sum_notional_def)

lemma fl_not_negative: "0 \<le> x \<Longrightarrow> not_negative (fl x)"
  using fl_nonneg [of x] by auto

lemma js_add_not_negative:
  "not_negative a \<Longrightarrow> not_negative b \<Longrightarrow> not_negative (js_add a b)"
  by (cases a; cases b) (simp_all add: fl_not_negative)

lemma foldl_not_negative:
  "not_negative a \<Longrightarrow> \<forall>x\<in>set xs. not_negative x \<Longrightarrow> not_negative (foldl js_add a xs)"
  by (induction xs arbitrary: a) (simp_all add: js_add_not_negative)

lemma sum_size_not_negative:
  assumes "\<forall>t\<in>set ts. included t \<longrightarrow> nonneg_size t"
  shows "not_negative (sum_size ts)"
proof -
  have "not_negative (size_tr t)" if "nonneg_size t" for t
    using that by (cases "size_tr t") (simp_all add: nonneg_size_def)
  with assms have "\<forall>x\<in>set (map size_tr (filter included ts)). not_negative x"
    by auto
  then show ?thesis
    unfolding sum_size_def by (intro foldl_not_negative) simp_all
qed

lemma not_negative_zero: "not_negative a \<Longrightarrow> (\<not> js_lt (Num 0) a) = (a = Num 0)"
  by (cases a) auto







section \<open>Sizing and rounding\<close>

text \<open>
  Claim C1, as stated, compares the leftover with the minimum strictly. The comparison
  is \<^verbatim>\<open>isBelowMin\<close>, which adds \<open>1e-9\<close> to the leftover first. With 10 shares
  available at price 0.5, a request for 5.0000000005 leaves the double 4.9999999995,
  which is positive and below the minimum of 5 shares; its sum with \<open>1e-9\<close> is the
  double 5.0000000005, which is not below 5, and the requested amount is kept.
\<close>

theorem adjustSellAmountToAvoidDust_strict_counterexample:
  "leftover (2814749767388035 / 2 ^ 49) 10 = Num (2814749766825085 / 2 ^ 49) \<and>
   minSellSharesAtPrice (Num (1 / 2)) = Num 5 \<and>
   js_lt (Num 0) (Num (2814749766825085 / 2 ^ 49)) \<and>
   js_lt (Num (2814749766825085 / 2 ^ 49)) (Num 5) \<and>
   adjustSellAmountToAvoidDust (Num (2814749767388035 / 2 ^ 49)) (Num 10) (Num (1 / 2)) = Num (2814749767388035 / 2 ^ 49) \<and>
   adjustSellAmountToAvoidDust (Num (2814749767388035 / 2 ^ 49)) (Num 10) (Num (1 / 2)) \<noteq> Num 10"
  by (simp only: adjustSellAmountToAvoidDust_eq minSellSharesAtPrice_eq leftover_def
        short_by_tolerance_def)
     (simp add: fl_eval)

text \<open>
  Claim C1, amended. For finite \<open>requested\<close> and \<open>available\<close> and any \<open>price\<close>:
  \<^verbatim>\<open>minSellSharesAtPrice(price)\<close> is the greater of 5 and the double quotient
  \<open>1/price\<close>, and 5 when the price is not finite or not positive;
  \<^verbatim>\<open>adjustSellAmountToAvoidDust\<close> clamps the request to \<open>min(requested, available)\<close>
  and returns the whole available balance if the leftover, the double difference of
  the balance and the clamped request, is strictly positive and short of that minimum
  by more than the tolerance: the double sum of the leftover and \<open>1e-9\<close> is smaller
  than the minimum, or one of the two is infinite. Otherwise it returns the clamped
  amount. A request for the balance or more returns the balance. With 10 available at
  price 0.5, a request for 8 sells 10 and a request for 4 sells 4.
\<close>

theorem adjustSellAmountToAvoidDust_dust_rule:
  "minSellSharesAtPrice pr =
     (case pr of Num p \<Rightarrow> if 0 < p then js_max (Num 5) (fl (1 / p)) else Num 5 | _ \<Rightarrow> Num 5) \<and>
   adjustSellAmountToAvoidDust (Num requested) (Num available) pr =
     (if js_lt (Num 0) (leftover requested available) \<and>
         short_by_tolerance (leftover requested available) (minSellSharesAtPrice pr)
      then Num available else Num (min requested available)) \<and>
   (available \<le> requested \<longrightarrow>
      adjustSellAmountToAvoidDust (Num requested) (Num available) pr = Num available) \<and>
   adjustSellAmountToAvoidDust (Num 8) (Num 10) (Num (1 / 2)) = Num 10 \<and>
   adjustSellAmountToAvoidDust (Num 4) (Num 10) (Num (1 / 2)) = Num 4"
proof -
  have a: "adjustSellAmountToAvoidDust (Num requested) (Num available) pr = Num available"
    if "available \<le> requested"
    using that by (simp add: adjustSellAmountToAvoidDust_eq leftover_def fl_zero min_def)
  have b: "adjustSellAmountToAvoidDust (Num 8) (Num 10) (Num (1 / 2)) = Num 10"
    by (simp only: adjustSellAmountToAvoidDust_eq minSellSharesAtPrice_eq leftover_def
          short_by_tolerance_def)
       (simp add: fl_eval)
  have c: "adjustSellAmountToAvoidDust (Num 4) (Num 10) (Num (1 / 2)) = Num 4"
    by (simp only: adjustSellAmountToAvoidDust_eq minSellSharesAtPrice_eq leftover_def
          short_by_tolerance_def)
       (simp add: fl_eval)
  from a b c show ?thesis
    using minSellSharesAtPrice_eq [of pr] adjustSellAmountToAvoidDust_eq [of requested available pr]
    by blast
qed

text \<open>
  A request for 12 of 10 available sells 10. At price 0.1 the minimum is 10 shares: a
  request for 3 of 10 available sells all 10, a request for 3 of 20 sells 3. With 7
  available at price 0.5, a request for 2.0000000010000005 leaves 4.999999999, whose
  sum with \<open>1e-9\<close> rounds to 5: the request is kept.
\<close>

theorem adjustSellAmountToAvoidDust_dust_rule_witness:
  "adjustSellAmountToAvoidDust (Num 12) (Num 10) (Num (1 / 2)) = Num 10 \<and>
   minSellSharesAtPrice (Num (3602879701896397 / 2 ^ 55)) = Num 10 \<and>
   adjustSellAmountToAvoidDust (Num 3) (Num 10) (Num (3602879701896397 / 2 ^ 55)) = Num 10 \<and>
   adjustSellAmountToAvoidDust (Num 3) (Num 20) (Num (3602879701896397 / 2 ^ 55)) = Num 3 \<and>
   adjustSellAmountToAvoidDust (Num (4503599629622297 / 2 ^ 51)) (Num 7) (Num (1 / 2)) = Num (4503599629622297 / 2 ^ 51)"
proof -
  note ms = adjustSellAmountToAvoidDust_dust_rule [THEN conjunct1]
  note eq = adjustSellAmountToAvoidDust_dust_rule [THEN conjunct2, THEN conjunct1]
  note ge = adjustSellAmountToAvoidDust_dust_rule [THEN conjunct2, THEN conjunct2, THEN conjunct1, rule_format]
  have a: "adjustSellAmountToAvoidDust (Num 12) (Num 10) (Num (1 / 2)) = Num 10"
    by (rule ge) simp
  have m: "minSellSharesAtPrice (Num (3602879701896397 / 2 ^ 55)) = Num 10"
    by (simp only: ms [of "Num (3602879701896397 / 2 ^ 55)"]) (simp add: fl_eval)
  have m5: "minSellSharesAtPrice (Num (1 / 2)) = Num 5"
    by (simp only: ms [of "Num (1 / 2)"]) (simp add: fl_eval)
  have l: "leftover 3 10 = Num 7" "leftover 3 20 = Num 17"
    "leftover (4503599629622297 / 2 ^ 51) 7 = Num (1407374883271805 / 2 ^ 48)"
    by (simp_all add: leftover_def fl_eval)
  have s: "short_by_tolerance (Num 7) (Num 10)" "\<not> short_by_tolerance (Num 17) (Num 10)"
    "\<not> short_by_tolerance (Num (1407374883271805 / 2 ^ 48)) (Num 5)"
    by (simp_all add: short_by_tolerance_def fl_eval)
  have b: "adjustSellAmountToAvoidDust (Num 3) (Num 10) (Num (3602879701896397 / 2 ^ 55)) = Num 10"
    by (simp only: eq [of 3 10 "Num (3602879701896397 / 2 ^ 55)"] m l s) simp
  have c: "adjustSellAmountToAvoidDust (Num 3) (Num 20) (Num (3602879701896397 / 2 ^ 55)) = Num 3"
    by (simp only: eq [of 3 20 "Num (3602879701896397 / 2 ^ 55)"] m l s) simp
  have d: "adjustSellAmountToAvoidDust (Num (4503599629622297 / 2 ^ 51)) (Num 7) (Num (1 / 2)) = Num (4503599629622297 / 2 ^ 51)"
    by (simp only: eq [of "4503599629622297 / 2 ^ 51" 7 "Num (1 / 2)"] m5 l s) simp
  from a m b c d show ?thesis by blast
qed




section \<open>Fill aggregation\<close>

text \<open>
  Claim C7, as stated, has the average price null exactly when the filled size is 0, and
  0.52 on the trades (2 at 0.4) and (3 at 0.6). The average is taken only when the
  filled size is strictly positive: one trade of size \<open>-1\<close> gives the filled size \<open>-1\<close>
  and no average price. On the two trades the notional is the double sum
  \<open>0.8 + 1.7999999999999998 = 2.5999999999999996\<close> and the average its quotient by 5,
  0.5199999999999999, which is not the double 0.52.
\<close>

theorem computeFillFromTrades_counterexample:
  "computeFillFromTrades [\<lparr>size_tr = Num (- 1), price_tr = Num (1 / 2)\<rparr>] =
     \<lparr>filledSize = Num (- 1), avgPrice = None\<rparr> \<and>
   Num (- 1) \<noteq> Num 0 \<and>
   fl (4 / 10) = Num (3602879701896397 / 2 ^ 53) \<and> fl (6 / 10) = Num (5404319552844595 / 2 ^ 53) \<and>
   fl (52 / 100) = Num (1170935903116329 / 2 ^ 51) \<and>
   avgPrice (computeFillFromTrades
     [\<lparr>size_tr = Num 2, price_tr = Num (3602879701896397 / 2 ^ 53)\<rparr>,
      \<lparr>size_tr = Num 3, price_tr = Num (5404319552844595 / 2 ^ 53)\<rparr>]) = Some (Num (4683743612465315 / 2 ^ 53)) \<and>
   avgPrice (computeFillFromTrades
     [\<lparr>size_tr = Num 2, price_tr = Num (3602879701896397 / 2 ^ 53)\<rparr>,
      \<lparr>size_tr = Num 3, price_tr = Num (5404319552844595 / 2 ^ 53)\<rparr>]) \<noteq> Some (fl (52 / 100))"
  by (simp add: computeFillFromTrades_def fl_eval)

text \<open>
  Claim C7, amended. For every list of trades, \<^verbatim>\<open>computeFillFromTrades\<close> returns as
  \<open>filledSize\<close> the sum of the sizes of the included trades, those of finite size and
  price, and as \<open>avgPrice\<close> the sum of size times price over them divided by
  \<open>filledSize\<close> when \<open>filledSize\<close> is strictly positive, null otherwise; the sums, the
  products and the quotient are those of doubles, the sums taken in the order of the
  list. \<open>avgPrice\<close> is null if and only if \<open>filledSize\<close> is not greater than 0, which
  for trades of non-negative size is \<open>filledSize = 0\<close>. On the trades (2 at 0.4) and
  (3 at 0.6) it returns \<open>filledSize = 5\<close> and \<open>avgPrice = 0.5199999999999999\<close>.
\<close>

theorem computeFillFromTrades_sums:
  "filledSize (computeFillFromTrades ts) = sum_size ts \<and>
   avgPrice (computeFillFromTrades ts) =
     (if js_lt (Num 0) (sum_size ts) then Some (js_div (sum_notional ts) (sum_size ts))
      else None) \<and>
   ((avgPrice (computeFillFromTrades ts) = None) =
      (\<not> js_lt (Num 0) (filledSize (computeFillFromTrades ts)))) \<and>
   ((\<forall>t\<in>set ts. included t \<longrightarrow> nonneg_size t) \<longrightarrow>
      ((avgPrice (computeFillFromTrades ts) = None) =
         (filledSize (computeFillFromTrades ts) = Num 0))) \<and>
   computeFillFromTrades
     [\<lparr>size_tr = Num 2, price_tr = Num (3602879701896397 / 2 ^ 53)\<rparr>,
      \<lparr>size_tr = Num 3, price_tr = Num (5404319552844595 / 2 ^ 53)\<rparr>] =
     \<lparr>filledSize = Num 5, avgPrice = Some (Num (4683743612465315 / 2 ^ 53))\<rparr>"
proof -
  have a: "filledSize (computeFillFromTrades ts) = sum_size ts"
    by (simp add: computeFillFromTrades_eq)
  have b: "avgPrice (computeFillFromTrades ts) =
     (if js_lt (Num 0) (sum_size ts) then Some (js_div (sum_notional ts) (sum_size ts))
      else None)"
    by (simp add: computeFillFromTrades_eq)
  have c: "(avgPrice (computeFillFromTrades ts) = None) =
      (\<not> js_lt (Num 0) (filledSize (computeFillFromTrades ts)))"
    by (simp add: computeFillFromTrades_eq)
  have d: "(avgPrice (computeFillFromTrades ts) = None) =
         (filledSize (computeFillFromTrades ts) = Num 0)"
    if "\<forall>t\<in>set ts. included t \<longrightarrow> nonneg_size t"
    using not_negative_zero [OF sum_size_not_negative [OF that]]
    by (auto simp add: computeFillFromTrades_eq)
  have e: "computeFillFromTrades
     [\<lparr>size_tr = Num 2, price_tr = Num (3602879701896397 / 2 ^ 53)\<rparr>,
      \<lparr>size_tr = Num 3, price_tr = Num (5404319552844595 / 2 ^ 53)\<rparr>] =
     \<lparr>filledSize = Num 5, avgPrice = Some (Num (4683743612465315 / 2 ^ 53))\<rparr>"
    by (simp add: computeFillFromTrades_def fl_eval)
  from a b c d e show ?thesis by blast
qed

text \<open>
  A trade whose size is not a number, or whose price is not finite, is left out of both
  sums: the trades (0 at 0.5) and (NaN at 1) have filled size 0 and no average price;
  the trades (2 at 0.5) and (1 at an infinite price) have filled size 2 and an average
  price.
\<close>

theorem computeFillFromTrades_sums_witness:
  "filledSize (computeFillFromTrades
     [\<lparr>size_tr = Num 0, price_tr = Num (1 / 2)\<rparr>, \<lparr>size_tr = NaN, price_tr = Num 1\<rparr>]) = Num 0 \<and>
   avgPrice (computeFillFromTrades
     [\<lparr>size_tr = Num 0, price_tr = Num (1 / 2)\<rparr>, \<lparr>size_tr = NaN, price_tr = Num 1\<rparr>]) = None \<and>
   filledSize (computeFillFromTrades
     [\<lparr>size_tr = Num 2, price_tr = Num (1 / 2)\<rparr>, \<lparr>size_tr = Num 1, price_tr = PosInf\<rparr>]) = Num 2 \<and>
   avgPrice (computeFillFromTrades
     [\<lparr>size_tr = Num 2, price_tr = Num (1 / 2)\<rparr>, \<lparr>size_tr = Num 1, price_tr = PosInf\<rparr>]) \<noteq> None"
proof -
  let ?ts = "[\<lparr>size_tr = Num 0, price_tr = Num (1 / 2)\<rparr>, \<lparr>size_tr = NaN, price_tr = Num 1\<rparr>]"
  let ?us = "[\<lparr>size_tr = Num 2, price_tr = Num (1 / 2)\<rparr>, \<lparr>size_tr = Num 1, price_tr = PosInf\<rparr>]"
  note size = computeFillFromTrades_sums [THEN conjunct1]
  note iff = computeFillFromTrades_sums [THEN conjunct2, THEN conjunct2, THEN conjunct2, THEN conjunct1, THEN mp]
  have h: "\<forall>t\<in>set ?ts. included t \<longrightarrow> nonneg_size t"
    by (simp add: included_def nonneg_size_def)
  have k: "\<forall>t\<in>set ?us. included t \<longrightarrow> nonneg_size t"
    by (simp add: included_def nonneg_size_def)
  have s: "sum_size ?ts = Num 0" "sum_size ?us = Num 2"
    by (simp_all add: sum_size_def included_def fl_eval)
  have a: "filledSize (computeFillFromTrades ?ts) = Num 0"
    by (simp only: size [of ?ts] s)
  have b: "filledSize (computeFillFromTrades ?us) = Num 2"
    by (simp only: size [of ?us] s)
  have c: "avgPrice (computeFillFromTrades ?ts) = None"
    by (simp only: iff [OF h] a)
  have d: "avgPrice (computeFillFromTrades ?us) \<noteq> None"
    by (simp only: iff [OF k] b) simp
  from a b c d show ?thesis by blast
qed

section \<open>Session\<close>

text \<open>
  Claim C5. \<^verbatim>\<open>getClobContext\<close> never raises to its caller. When trading is enabled,
  a key is configured and the promise it awaits is rejected, it returns null and leaves
  the memoized promise empty, so that the next such call awaits a fresh
  \<^verbatim>\<open>initClobContext()\<close> and returns what that one yields.
\<close>

theorem getClobContext_failure_is_caught:
  "(\<exists>r. fst (getClobContext cfg m w) = Inr r) \<and>
   (enabled cfg \<and> truthy (privateKey cfg) \<and> awaited_promise cfg m w = Inl e \<longrightarrow>
      fst (getClobContext cfg m w) = Inr None \<and>
      clobContextPromise (fst (snd (getClobContext cfg m w))) = None \<and>
      (\<forall>cfg2 w2. enabled cfg2 \<and> truthy (privateKey cfg2) \<longrightarrow>
         fst (getClobContext cfg2 (fst (snd (getClobContext cfg m w))) w2) =
           (case fst (initClobContext cfg2 w2) of
              Inr ctx \<Rightarrow> Inr (Some ctx)
            | Inl e2 \<Rightarrow> Inr None)))"
  by (auto simp: getClobContext_eq awaited_promise_def split: sum.splits)

text \<open>
  A wallet that rejects the key makes the first call return null with the memo empty;
  the next call, in a world where the key is accepted, returns a context.
\<close>

theorem getClobContext_failure_is_caught_witness:
  "fst (getClobContext example_config initial_module_state broken_wallet_world) = Inr None \<and>
   clobContextPromise
     (fst (snd (getClobContext example_config initial_module_state broken_wallet_world))) = None \<and>
   fst (getClobContext example_config
          (fst (snd (getClobContext example_config initial_module_state broken_wallet_world)))
          example_world) = Inr (Some example_context)"
proof -
  have a: "awaited_promise example_config initial_module_state broken_wallet_world
             = Inl (JsError ''invalid private key'')"
    by (simp add: awaited_promise_def initial_module_state_def initClobContext_def
          example_config_def broken_wallet_world_def)
  have b: "fst (initClobContext example_config example_world) = Inr example_context"
    by (simp add: initClobContext_def example_config_def example_world_def example_context_def
          acquire_creds_def log_signer_def funder_of_def world_ops Let_def)
  from getClobContext_failure_is_caught [of example_config initial_module_state broken_wallet_world "JsError ''invalid private key''"] a
  have "fst (getClobContext example_config initial_module_state broken_wallet_world) = Inr None \<and>
      clobContextPromise (fst (snd (getClobContext example_config initial_module_state broken_wallet_world))) = None \<and>
      (\<forall>cfg2 w2. enabled cfg2 \<and> truthy (privateKey cfg2) \<longrightarrow>
         fst (getClobContext cfg2 (fst (snd (getClobContext example_config initial_module_state broken_wallet_world))) w2) =
           (case fst (initClobContext cfg2 w2) of
              Inr ctx \<Rightarrow> Inr (Some ctx)
            | Inl e2 \<Rightarrow> Inr None))"
    by (simp add: example_config_def)
  with b show ?thesis by (simp add: example_config_def)
qed

text \<open>
  Claim C9. While trading is enabled: a call that finds the key missing and the flag
  unset logs the warning once and sets the flag; a call that finds the key missing and
  the flag set returns null and changes nothing; a call that finds a key clears the
  flag. So over any sequence of calls the warning is logged once for each missing-key
  episode that begins in it.
\<close>

theorem missing_key_warning_once:
  "(enabled cfg \<and> \<not> truthy (privateKey cfg) \<and> \<not> warnedMissingKey m \<longrightarrow>
      getClobContext cfg m w =
        (Inr None, m\<lparr>warnedMissingKey := True\<rparr>,
         logger_warn ''TRADING_ENABLED set but POLY_PRIVATE_KEY is missing'' w)) \<and>
   (enabled cfg \<and> \<not> truthy (privateKey cfg) \<and> warnedMissingKey m \<longrightarrow>
      getClobContext cfg m w = (Inr None, m, w)) \<and>
   (enabled cfg \<and> truthy (privateKey cfg) \<longrightarrow>
      \<not> warnedMissingKey (fst (snd (getClobContext cfg m w)))) \<and>
   ((\<forall>c \<in> set cfgs. enabled c) \<longrightarrow>
      missing_key_warnings (snd (getClobContext_calls cfgs m w)) =
        missing_key_warnings w +
          episodes (warnedMissingKey m) (map (\<lambda>c. \<not> truthy (privateKey c)) cfgs))"
  using calls_count[of cfgs m w]
  by (auto simp: getClobContext_eq split: sum.splits)

text \<open>
  Two calls without a key, one with a key, two more without: two episodes, two
  warnings. A call without a key in the middle of an episode changes nothing.
\<close>

theorem missing_key_warning_once_witness:
  "missing_key_warnings
     (snd (getClobContext_calls
             [no_key_config, no_key_config, example_config, no_key_config, no_key_config]
             initial_module_state example_world)) = 2 \<and>
   getClobContext no_key_config (initial_module_state\<lparr>warnedMissingKey := True\<rparr>) example_world
     = (Inr None, initial_module_state\<lparr>warnedMissingKey := True\<rparr>, example_world)"
proof -
  let ?cfgs = "[no_key_config, no_key_config, example_config, no_key_config, no_key_config]"
  have en: "\<forall>c \<in> set ?cfgs. enabled c"
    by (simp add: no_key_config_def example_config_def)
  have ks: "map (\<lambda>c. \<not> truthy (privateKey c)) ?cfgs = [True, True, False, True, True]"
    by (simp add: no_key_config_def example_config_def)
  have w0: "missing_key_warnings example_world = 0"
    by (simp add: missing_key_warnings_def example_world_def)
  have m0: "\<not> warnedMissingKey initial_module_state"
    by (simp add: initial_module_state_def)
  from missing_key_warning_once [of no_key_config initial_module_state example_world ?cfgs] en
  have "missing_key_warnings (snd (getClobContext_calls ?cfgs initial_module_state example_world)) =
        missing_key_warnings example_world +
          episodes (warnedMissingKey initial_module_state) (map (\<lambda>c. \<not> truthy (privateKey c)) ?cfgs)"
    by blast
  then have a: "missing_key_warnings (snd (getClobContext_calls ?cfgs initial_module_state example_world)) = 2"
    unfolding ks w0 using m0 by simp
  have nk: "enabled no_key_config \<and> \<not> truthy (privateKey no_key_config) \<and>
            warnedMissingKey (initial_module_state\<lparr>warnedMissingKey := True\<rparr>)"
    by (simp add: no_key_config_def example_config_def)
  from missing_key_warning_once [of no_key_config "initial_module_state\<lparr>warnedMissingKey := True\<rparr>" example_world "[]"] nk
  have b: "getClobContext no_key_config (initial_module_state\<lparr>warnedMissingKey := True\<rparr>) example_world
     = (Inr None, initial_module_state\<lparr>warnedMissingKey := True\<rparr>, example_world)"
    by blast
  from a b show ?thesis by blast
qed

section \<open>Order submission\<close>

text \<open>
  Claim C2. When the session is at hand, the metadata is resolved and the exchange
  answers the submission without raising, with a response that carries no order
  identifier under either alias, \<^verbatim>\<open>placeLimitOrder\<close> and \<^verbatim>\<open>placeMarketOrder\<close> report a
  failure: with \<^verbatim>\<open>returnError\<close> set, an error record with an empty identifier whose
  text holds the first 500 characters of the serialized response (followed by three
  dots when it is longer); without it, null.
\<close>

theorem missing_order_id_is_failure:
  assumes "fst (getClobContext cfg m w) = Inr (Some ctx)"
    and "metadata_resolved opts w"
    and "no_order_id response"
  shows
    "(reply (createAndPostOrder w) (calls (createAndPostOrder w)) = Inr response \<longrightarrow>
        fst (placeLimitOrder cfg opts m w) =
          Inr (if returnError opts
               then Some \<lparr>orderId_res = [],
                          status_res = (case response of
                                          None \<Rightarrow> []
                                        | Some r \<Rightarrow> (case status_resp r of None \<Rightarrow> [] | Some s \<Rightarrow> s)),
                          error_res = Some (''missing orderId in response: '' @
                                            take 500 (stringify response) @
                                            (if 500 < length (stringify response) then ''...'' else []))\<rparr>
               else None)) \<and>
     (reply (createAndPostMarketOrder w) (calls (createAndPostMarketOrder w)) = Inr response \<longrightarrow>
        fst (placeMarketOrder cfg opts m w) =
          Inr (if returnError opts
               then Some \<lparr>orderId_res = [],
                          status_res = (case response of
                                          None \<Rightarrow> []
                                        | Some r \<Rightarrow> (case status_resp r of None \<Rightarrow> [] | Some s \<Rightarrow> s)),
                          error_res = Some (''missing orderId in response: '' @
                                            take 500 (stringify response) @
                                            (if 500 < length (stringify response) then ''...'' else []))\<rparr>
               else None))"
proof -
  obtain m1 w1 where g: "getClobContext cfg m w = (Inr (Some ctx), m1, w1)"
    using assms(1) by (cases "getClobContext cfg m w") auto
  then have w1: "w1 = snd (snd (getClobContext cfg m w))" by simp
  have fr: "getTickSize w1 = getTickSize w" "getNegRisk w1 = getNegRisk w"
    "createAndPostOrder w1 = createAndPostOrder w"
    "createAndPostMarketOrder w1 = createAndPostMarketOrder w"
    unfolding w1 by simp_all
  with assms(2) have mr: "metadata_resolved opts w1" by (simp add: metadata_resolved_def)
  have lim: "fst (placeLimitOrder cfg opts m w) = Inr (fst (order_result wa ia opts response wx))"
    if "reply (createAndPostOrder w) (calls (createAndPostOrder w)) = Inr response"
       "\<And>wa ia wx. fst (order_result wa ia opts response wx) = rep" for wa ia wx rep
  proof -
    from order_metadata_resolved[OF mr] obtain tick neg w2 where
      "order_metadata ''Failed to fetch order metadata token=%s side=%s: %s'' opts w1
         = (Inr (tick, neg), w2)" "createAndPostOrder w2 = createAndPostOrder w1"
      by blast
    with g that fr show ?thesis
      by (simp add: placeLimitOrder_def Let_def split_beta)
  qed
  have mkt: "fst (placeMarketOrder cfg opts m w) = Inr (fst (order_result wa ia opts response wx))"
    if "reply (createAndPostMarketOrder w) (calls (createAndPostMarketOrder w)) = Inr response"
       "\<And>wa ia wx. fst (order_result wa ia opts response wx) = rep" for wa ia wx rep
  proof -
    from order_metadata_resolved[OF mr] obtain tick neg w2 where
      "order_metadata ''Failed to fetch market order metadata token=%s side=%s: %s'' opts w1
         = (Inr (tick, neg), w2)" "createAndPostMarketOrder w2 = createAndPostMarketOrder w1"
      by blast
    with g that fr show ?thesis
      by (simp add: placeMarketOrder_def Let_def split_beta)
  qed
  show ?thesis
    using lim mkt order_result_no_id[OF assms(3)] by simp
qed

text \<open>
  A response of null, a response of 600 characters, and a call without
  \<^verbatim>\<open>returnError\<close>.
\<close>

theorem missing_order_id_is_failure_witness:
  "fst (placeLimitOrder example_config example_opts ready_module_state example_world) =
     Inr (Some \<lparr>orderId_res = [], status_res = [],
                error_res = Some ''missing orderId in response: {}''\<rparr>) \<and>
   fst (placeMarketOrder example_config example_opts ready_module_state example_world) =
     Inr (Some \<lparr>orderId_res = [], status_res = ''rejected'',
                error_res = Some (''missing orderId in response: '' @ replicate 500 (CHR ''x'') @ ''...'')\<rparr>) \<and>
   fst (placeLimitOrder example_config (example_opts\<lparr>tickSize := None, returnError := False\<rparr>)
          ready_module_state example_world) = Inr None"
proof -
  let ?resp = "Some \<lparr>orderID = None, orderId = None, status_resp = Some ''rejected'',
                      json = replicate 600 (CHR ''x'')\<rparr>"
  have g: "fst (getClobContext example_config ready_module_state example_world) = Inr (Some example_context)"
    by (simp add: getClobContext_eq awaited_promise_def example_config_def ready_module_state_def)
  have m1: "metadata_resolved example_opts example_world"
    by (simp add: metadata_resolved_def example_opts_def)
  have m2: "metadata_resolved (example_opts\<lparr>tickSize := None, returnError := False\<rparr>) example_world"
    by (simp add: metadata_resolved_def example_world_def)
  have n1: "no_order_id None" "no_order_id ?resp"
    by (simp_all add: no_order_id_def)
  have r1: "reply (createAndPostOrder example_world) (calls (createAndPostOrder example_world)) = Inr None"
    by (simp add: example_world_def)
  have r2: "reply (createAndPostMarketOrder example_world) (calls (createAndPostMarketOrder example_world))
              = Inr ?resp"
    by (simp add: example_world_def)
  have ro: "returnError example_opts"
    "\<not> returnError (example_opts\<lparr>tickSize := None, returnError := False\<rparr>)"
    by (simp_all add: example_opts_def)
  have st: "stringify None = ''{}''" "stringify ?resp = replicate 600 (CHR ''x'')"
    by (simp_all add: stringify_def)
  note lim = conjunct1 [OF missing_order_id_is_failure [OF g m1 n1(1)], THEN mp, OF r1]
  note mkt = conjunct2 [OF missing_order_id_is_failure [OF g m1 n1(2)], THEN mp, OF r2]
  note nul = conjunct1 [OF missing_order_id_is_failure [OF g m2 n1(1)], THEN mp, OF r1]
  from lim have a: "fst (placeLimitOrder example_config example_opts ready_module_state example_world) =
     Inr (Some \<lparr>orderId_res = [], status_res = [],
                error_res = Some ''missing orderId in response: {}''\<rparr>)"
    by (simp add: ro st)
  from mkt have b: "fst (placeMarketOrder example_config example_opts ready_module_state example_world) =
     Inr (Some \<lparr>orderId_res = [], status_res = ''rejected'',
                error_res = Some (''missing orderId in response: '' @ replicate 500 (CHR ''x'') @ ''...'')\<rparr>)"
    by (simp add: ro st)
  from nul have c: "fst (placeLimitOrder example_config (example_opts\<lparr>tickSize := None, returnError := False\<rparr>)
          ready_module_state example_world) = Inr None"
    by (simp add: ro)
  from a b c show ?thesis by blast
qed

section \<open>Waiting for fills\<close>

text \<open>
  Claim C3. When the session is at hand, the loop of \<^verbatim>\<open>fetchOrderFills\<close> runs \<open>n\<close>
  times within \<^verbatim>\<open>maxWaitMs\<close>, no pass obtains an order snapshot, and the next reading
  of the clock exceeds \<^verbatim>\<open>maxWaitMs\<close>, the call returns the status \<^verbatim>\<open>unknown\<close>, the
  filled size 0, no average price, no trades and no order.
\<close>

theorem fetchOrderFills_timeout_without_snapshot:
  assumes "getClobContext cfg m w = (Inr (Some ctx), m1, w1)"
    and "\<forall>i<n. real_of_int (reply (Date_now w1) (Suc (calls (Date_now w1)) + i)
                   - reply (Date_now w1) (calls (Date_now w1)))
                 \<le> (case maxWaitMs opts of None \<Rightarrow> 60000 | Some x \<Rightarrow> x)"
    and "\<not> real_of_int (reply (Date_now w1) (Suc (calls (Date_now w1)) + n)
                   - reply (Date_now w1) (calls (Date_now w1)))
                 \<le> (case maxWaitMs opts of None \<Rightarrow> 60000 | Some x \<Rightarrow> x)"
    and "\<forall>i<n. no_snapshot (reply (getOrder w1) (calls (getOrder w1) + i))"
  shows "\<exists>w'. fetchOrderFills cfg oid opts m w =
           Some (Inr (Some \<lparr>filledSize = Num 0, avgPrice = None, status_fill = Some ''unknown'',
                            trades = [], order_snap = None\<rparr>), m1, w')"
proof -
  let ?mx = "case maxWaitMs opts of None \<Rightarrow> 60000 | Some x \<Rightarrow> x"
  let ?w2 = "snd (now w1)"
  let ?st = "reply (Date_now w1) (calls (Date_now w1))"
  have 1: "\<forall>i<n. real_of_int (reply (Date_now ?w2) (calls (Date_now ?w2) + i) - ?st) \<le> ?mx"
    using assms(2) by simp
  have 2: "\<not> real_of_int (reply (Date_now ?w2) (calls (Date_now ?w2) + n) - ?st) \<le> ?mx"
    using assms(3) by simp
  have 3: "\<forall>i<n. no_snapshot (reply (getOrder ?w2) (calls (getOrder ?w2) + i))"
    using assms(4) by simp
  from poll_loop_no_snapshot[OF 1 2 3] obtain w' where
    "poll_loop oid ?mx (case pollIntervalMs opts of None \<Rightarrow> 1500 | Some x \<Rightarrow> x)
       (case preferTrades opts of None \<Rightarrow> False | Some b \<Rightarrow> b) ?st None [] ?w2
     = Some (After_loop None [], w')"
    by blast
  with assms(1) show ?thesis
    by (simp add: fetchOrderFills_def split_beta after_loop_def)
qed

text \<open>
  With \<^verbatim>\<open>maxWaitMs\<close> 2500, a clock that advances by a second and an order fetch that
  always fails, the loop runs twice.
\<close>

theorem fetchOrderFills_timeout_without_snapshot_witness:
  "\<exists>w'. fetchOrderFills example_config ''order-1''
          \<lparr>maxWaitMs = Some 2500, pollIntervalMs = None, preferTrades = None\<rparr>
          ready_module_state example_world =
        Some (Inr (Some \<lparr>filledSize = Num 0, avgPrice = None, status_fill = Some ''unknown'',
                         trades = [], order_snap = None\<rparr>), ready_module_state, w')"
proof -
  let ?opts = "\<lparr>maxWaitMs = Some 2500, pollIntervalMs = None, preferTrades = None\<rparr>"
  have g: "getClobContext example_config ready_module_state example_world
             = (Inr (Some example_context), ready_module_state, example_world)"
    by (simp add: getClobContext_eq awaited_promise_def example_config_def ready_module_state_def)
  have t: "reply (Date_now example_world) = (\<lambda>n. 1000 * int n)" "calls (Date_now example_world) = 0"
    "reply (getOrder example_world) = (\<lambda>n. Inl (JsError ''ECONNRESET''))"
    by (simp_all add: example_world_def)
  have 1: "\<forall>i<Suc (Suc 0). real_of_int (reply (Date_now example_world) (Suc (calls (Date_now example_world)) + i)
                   - reply (Date_now example_world) (calls (Date_now example_world)))
                 \<le> (case maxWaitMs ?opts of None \<Rightarrow> 60000 | Some x \<Rightarrow> x)"
    by (simp add: t less_Suc_eq)
  have 2: "\<not> real_of_int (reply (Date_now example_world) (Suc (calls (Date_now example_world)) + Suc (Suc 0))
                   - reply (Date_now example_world) (calls (Date_now example_world)))
                 \<le> (case maxWaitMs ?opts of None \<Rightarrow> 60000 | Some x \<Rightarrow> x)"
    by (simp add: t)
  have 3: "\<forall>i<Suc (Suc 0). no_snapshot (reply (getOrder example_world) (calls (getOrder example_world) + i))"
    by (simp add: t)
  from fetchOrderFills_timeout_without_snapshot [OF g 1 2 3] show ?thesis .
qed

text \<open>
  Claim C4, as stated, has every pass of the loop return at once when the status of the
  fetched order is no longer \<^verbatim>\<open>live\<close>. The return sits inside the branch for orders
  that carry associated trades: a canceled order without trades, polled with
  \<^verbatim>\<open>preferTrades\<close>, makes the pass sleep and the loop go on.
\<close>

theorem poll_iteration_non_live_counterexample:
  "reply (getOrder canceled_world) (calls (getOrder canceled_world)) = Inr (Some canceled_order) \<and>
   status canceled_order \<noteq> Some ''live'' \<and>
   fst (poll_iteration ''order-1'' 1500 True [] canceled_world) = Slept (Some canceled_order) [] \<and>
   slept (snd (poll_iteration ''order-1'' 1500 True [] canceled_world)) = [1500]"
  by (simp add: poll_iteration_def break_or_sleep_def split_beta canceled_world_def
        canceled_order_def example_world_def sleep_def)

text \<open>
  Claim C4, amended. In every pass of the loop in which the fetched order carries at
  least one associated trade: if the filled size aggregated from the fetched trades is
  strictly positive, or the status of the order is not \<^verbatim>\<open>live\<close>, the pass returns the
  snapshot of status, filled size, average price, trades and order; nothing is slept,
  and the loop, entered within \<^verbatim>\<open>maxWaitMs\<close>, returns that snapshot from this pass.
\<close>

theorem poll_iteration_early_return:
  assumes "reply (getOrder w) (calls (getOrder w)) = Inr (Some od)"
    and "associate_trades od = Some ids" and "ids \<noteq> []"
    and "fetchTradesForOrder (Some od) (snd (client_getOrder oid w)) = (ts1, w3)"
    and "js_lt (Num 0) (filledSize (computeFillFromTrades ts1)) \<or> status od \<noteq> Some ''live''"
  shows "poll_iteration oid pollMs prefer ts w =
           (Returned \<lparr>filledSize = filledSize (computeFillFromTrades ts1),
                      avgPrice = avgPrice (computeFillFromTrades ts1),
                      status_fill = status od, trades = ts1, order_snap = Some od\<rparr>, w3) \<and>
         slept w3 = slept w \<and>
         (\<forall>w0 started maxMs lo.
            snd (now w0) = w \<and> real_of_int (fst (now w0) - started) \<le> maxMs \<longrightarrow>
            poll_loop oid maxMs pollMs prefer started lo ts w0 =
              Some (Return_in_loop \<lparr>filledSize = filledSize (computeFillFromTrades ts1),
                      avgPrice = avgPrice (computeFillFromTrades ts1),
                      status_fill = status od, trades = ts1, order_snap = Some od\<rparr>, w3))"
proof -
  have it: "poll_iteration oid pollMs prefer ts w =
           (Returned \<lparr>filledSize = filledSize (computeFillFromTrades ts1),
                      avgPrice = avgPrice (computeFillFromTrades ts1),
                      status_fill = status od, trades = ts1, order_snap = Some od\<rparr>, w3)"
    using assms by (auto simp: poll_iteration_def split_beta Let_def)
  have "slept (snd (fetchTradesForOrder (Some od) (snd (client_getOrder oid w)))) = slept w"
    by simp
  with assms(4) have sl: "slept w3 = slept w" by simp
  have lp: "poll_loop oid maxMs pollMs prefer started lo ts w0 =
              Some (Return_in_loop \<lparr>filledSize = filledSize (computeFillFromTrades ts1),
                      avgPrice = avgPrice (computeFillFromTrades ts1),
                      status_fill = status od, trades = ts1, order_snap = Some od\<rparr>, w3)"
    if "snd (now w0) = w" "real_of_int (fst (now w0) - started) \<le> maxMs" for w0 started maxMs lo
    using that it by (subst poll_loop.simps) (simp add: split_beta del: next_call)
  from it sl lp show ?thesis by blast
qed

text \<open>
  A live order with one trade of size 2 at 0.5 is returned from the first pass.
\<close>

theorem poll_iteration_early_return_witness:
  "poll_iteration ''order-1'' 1500 True [] filled_world =
     (Returned \<lparr>filledSize = Num 2, avgPrice = Some (Num (1 / 2)), status_fill = Some ''live'',
                trades = [\<lparr>size_tr = Num 2, price_tr = Num (1 / 2)\<rparr>],
                order_snap = Some filled_order\<rparr>,
      snd (fetchTradesForOrder (Some filled_order) (snd (client_getOrder ''order-1'' filled_world)))) \<and>
   slept (snd (fetchTradesForOrder (Some filled_order) (snd (client_getOrder ''order-1'' filled_world))))
     = []"
proof -
  let ?w1 = "snd (client_getOrder ''order-1'' filled_world)"
  have a: "reply (getOrder filled_world) (calls (getOrder filled_world)) = Inr (Some filled_order)"
    by (simp add: filled_world_def)
  have b: "associate_trades filled_order = Some [''trade-1'']" "[''trade-1''] \<noteq> []"
    by (simp_all add: filled_order_def)
  have ts: "fst (fetchTradesForOrder (Some filled_order) ?w1) = [\<lparr>size_tr = Num 2, price_tr = Num (1 / 2)\<rparr>]"
    by (simp add: fetchTradesForOrder_def filled_order_def filled_world_def example_world_def
          client_getOrder_def client_getTrades_def next_reply_def split_beta)
  then have c: "fetchTradesForOrder (Some filled_order) ?w1 =
        ([\<lparr>size_tr = Num 2, price_tr = Num (1 / 2)\<rparr>], snd (fetchTradesForOrder (Some filled_order) ?w1))"
    by (metis prod.collapse)
  have f: "computeFillFromTrades [\<lparr>size_tr = Num 2, price_tr = Num (1 / 2)\<rparr>]
             = \<lparr>filledSize = Num 2, avgPrice = Some (Num (1 / 2))\<rparr>"
    by (simp add: computeFillFromTrades_def fl_eval)
  then have d: "js_lt (Num 0) (filledSize (computeFillFromTrades [\<lparr>size_tr = Num 2, price_tr = Num (1 / 2)\<rparr>]))
      \<or> status filled_order \<noteq> Some ''live''"
    by simp
  have s0: "slept filled_world = []"
    by (simp add: filled_world_def example_world_def)
  have lv: "status filled_order = Some ''live''" by (simp add: filled_order_def)
  from poll_iteration_early_return [OF a b c d, of 1500 True "[]"] f s0 lv show ?thesis by simp
qed

text \<open>
  Claim C10. When trading is disabled, the key is missing, or the promise
  \<^verbatim>\<open>getClobContext\<close> awaits is rejected, \<^verbatim>\<open>fetchOrderFills\<close> returns null, for every
  order identifier and every options record. It does nothing beyond the call of
  \<^verbatim>\<open>getClobContext\<close>: no order or trade is fetched and nothing is slept.
\<close>

theorem fetchOrderFills_null_without_session:
  "(\<not> enabled cfg \<or> \<not> truthy (privateKey cfg) \<or> awaited_promise cfg m w = Inl e) \<longrightarrow>
     fetchOrderFills cfg oid opts m w = Some (Inr None, snd (getClobContext cfg m w)) \<and>
     getOrder (snd (snd (getClobContext cfg m w))) = getOrder w \<and>
     getTrades (snd (snd (getClobContext cfg m w))) = getTrades w \<and>
     slept (snd (snd (getClobContext cfg m w))) = slept w"
proof
  assume h: "\<not> enabled cfg \<or> \<not> truthy (privateKey cfg) \<or> awaited_promise cfg m w = Inl e"
  then have "fst (getClobContext cfg m w) = Inr None"
    by (auto simp: getClobContext_eq)
  then obtain m1 w1 where "getClobContext cfg m w = (Inr None, m1, w1)"
    by (cases "getClobContext cfg m w") auto
  then have "fetchOrderFills cfg oid opts m w = Some (Inr None, snd (getClobContext cfg m w))"
    by (simp add: fetchOrderFills_def)
  then show "fetchOrderFills cfg oid opts m w = Some (Inr None, snd (getClobContext cfg m w)) \<and>
     getOrder (snd (snd (getClobContext cfg m w))) = getOrder w \<and>
     getTrades (snd (snd (getClobContext cfg m w))) = getTrades w \<and>
     slept (snd (snd (getClobContext cfg m w))) = slept w"
    by simp
qed

text \<open>
  The three cases: trading disabled, no key, and a key the wallet rejects.
\<close>

theorem fetchOrderFills_null_without_session_witness:
  "fetchOrderFills disabled_config ''order-1'' default_fill_opts initial_module_state example_world
     = Some (Inr None, snd (getClobContext disabled_config initial_module_state example_world)) \<and>
   fetchOrderFills no_key_config ''order-1'' default_fill_opts initial_module_state example_world
     = Some (Inr None, snd (getClobContext no_key_config initial_module_state example_world)) \<and>
   fetchOrderFills example_config ''order-1'' default_fill_opts initial_module_state broken_wallet_world
     = Some (Inr None, snd (getClobContext example_config initial_module_state broken_wallet_world)) \<and>
   calls (getOrder (snd (snd (getClobContext example_config initial_module_state broken_wallet_world)))) = 0 \<and>
   slept (snd (snd (getClobContext example_config initial_module_state broken_wallet_world))) = []"
proof -
  have a: "awaited_promise example_config initial_module_state broken_wallet_world
             = Inl (JsError ''invalid private key'')"
    by (simp add: awaited_promise_def initial_module_state_def initClobContext_def
          example_config_def broken_wallet_world_def)
  have g: "calls (getOrder broken_wallet_world) = 0" "slept broken_wallet_world = []"
    by (simp_all add: broken_wallet_world_def example_world_def)
  have d: "\<not> enabled disabled_config"
    by (simp add: disabled_config_def example_config_def)
  have k: "\<not> truthy (privateKey no_key_config)"
    by (simp add: no_key_config_def example_config_def)
  from fetchOrderFills_null_without_session [of disabled_config initial_module_state example_world "JsError []" "''order-1''" default_fill_opts] d
  have 1: "fetchOrderFills disabled_config ''order-1'' default_fill_opts initial_module_state example_world
     = Some (Inr None, snd (getClobContext disabled_config initial_module_state example_world))"
    by blast
  from fetchOrderFills_null_without_session [of no_key_config initial_module_state example_world "JsError []" "''order-1''" default_fill_opts] k
  have 2: "fetchOrderFills no_key_config ''order-1'' default_fill_opts initial_module_state example_world
     = Some (Inr None, snd (getClobContext no_key_config initial_module_state example_world))"
    by blast
  from fetchOrderFills_null_without_session [of example_config initial_module_state broken_wallet_world "JsError ''invalid private key''"
          "''order-1''" default_fill_opts] a
  have 3: "fetchOrderFills example_config ''order-1'' default_fill_opts initial_module_state broken_wallet_world
     = Some (Inr None, snd (getClobContext example_config initial_module_state broken_wallet_world)) \<and>
     getOrder (snd (snd (getClobContext example_config initial_module_state broken_wallet_world))) = getOrder broken_wallet_world \<and>
     slept (snd (snd (getClobContext example_config initial_module_state broken_wallet_world))) = slept broken_wallet_world"
    by blast
  from 1 2 3 g show ?thesis by simp
qed

section \<open>The price band of market orders\<close>



end
